theory Spec2Isabelle
  imports Complex_Main "HOL-Library.AList"
begin

section \<open>JSON values as Python sees them\<close>

text \<open>
  Every payload of \<^verbatim>\<open>app.py\<close> is what \<^verbatim>\<open>resp.json()\<close> returns: a tree of Python
  values. A \<^verbatim>\<open>dict\<close> is an association list in insertion order (a Python dict has each
  key once; \<open>dict_get\<close> reads the first binding). Numbers are kept as rationals: the code
  only ever asks whether a number is zero. Python's \<^verbatim>\<open>None\<close> is \<open>JNull\<close>.
  A string is the list of the bytes of its UTF-8 encoding: ASCII text, which the keys,
  status words and URLs the code compares against are, is one byte per character, and
  every other character is two to four bytes of value 128 or more.
\<close>

datatype json =
    JNull
  | JBool bool
  | JNum rat
  | JStr string
  | JArr "json list"
  | JObj "(string \<times> json) list"

type_synonym bytes = "char list"

text \<open>Truth value testing, as \<^verbatim>\<open>if x:\<close>, \<^verbatim>\<open>not x\<close> and \<^verbatim>\<open>or\<close> apply it.\<close>

fun truthy :: "json \<Rightarrow> bool" where
  "truthy JNull = False"
| "truthy (JBool b) = b"
| "truthy (JNum n) = (n \<noteq> 0)"
| "truthy (JStr s) = (s \<noteq> [])"
| "truthy (JArr xs) = (xs \<noteq> [])"
| "truthy (JObj kvs) = (kvs \<noteq> [])"

text \<open>\<^verbatim>\<open>a or b\<close>: the first operand when it is truthy, the second otherwise.\<close>

definition py_or :: "json \<Rightarrow> json \<Rightarrow> json" where
  "py_or a b = (if truthy a then a else b)"

text \<open>\<^verbatim>\<open>d.get(k)\<close> on a dict: the value, or \<^verbatim>\<open>None\<close> when the key is absent.\<close>

definition dict_get :: "(string \<times> json) list \<Rightarrow> string \<Rightarrow> json" where
  "dict_get kvs k = (case map_of kvs k of None \<Rightarrow> JNull | Some v \<Rightarrow> v)"

text \<open>\<^verbatim>\<open>d.get(k, default)\<close>.\<close>

definition dict_get_default :: "(string \<times> json) list \<Rightarrow> string \<Rightarrow> json \<Rightarrow> json" where
  "dict_get_default kvs k d = (case map_of kvs k of None \<Rightarrow> d | Some v \<Rightarrow> v)"

text \<open>
  \<^verbatim>\<open>str.upper()\<close> belongs to Python's standard library. It maps each character of the
  string through the upper-case mapping of Unicode, which may give several characters
  for one, without regard to the characters around it. The mapping is written out here
  as Python 3.11 has it (Unicode 14.0): on ASCII the letters a to z move to A to Z and
  every other character stays; beyond ASCII, \<open>special_uppers\<close> lists the ten characters
  whose upper case is ASCII text and \<open>other_uppers\<close> the 1489 other characters that
  change, each as the code point with the code points of its upper case.
\<close>

definition ascii_upper :: "char \<Rightarrow> char" where
  "ascii_upper c =
     (let n = (of_char c :: nat) in if 97 \<le> n \<and> n \<le> 122 then char_of (n - 32) else c)"

text \<open>The number of bytes of the UTF-8 character that starts with a given byte, and the
  UTF-8 bytes of a code point.\<close>

definition utf8_len :: "char \<Rightarrow> nat" where
  "utf8_len c =
     (let n = (of_char c :: nat) in
      if n < 192 then 1 else if n < 224 then 2 else if n < 240 then 3 else 4)"

definition utf8_encode :: "nat \<Rightarrow> string" where
  "utf8_encode c =
     (if c < 128 then [char_of c]
      else if c < 2048 then [char_of (192 + c div 64), char_of (128 + c mod 64)]
      else if c < 65536 then
        [char_of (224 + c div 4096), char_of (128 + c div 64 mod 64), char_of (128 + c mod 64)]
      else
        [char_of (240 + c div 262144), char_of (128 + c div 4096 mod 64),
         char_of (128 + c div 64 mod 64), char_of (128 + c mod 64)])"

definition special_uppers :: "(nat \<times> nat list) list" where
  "special_uppers =
     [(223, [83, 83]), (305, [73]), (383, [83]), (64256, [70, 70]), (64257, [70, 73]),
      (64258, [70, 76]), (64259, [70, 70, 73]), (64260, [70, 70, 76]), (64261, [83, 84]),
      (64262, [83, 84])]"

definition other_uppers_0 :: "(nat \<times> nat list) list" where
  "other_uppers_0 =
    [(181, [924]), (224, [192]), (225, [193]), (226, [194]), (227, [195]), (228, [196]),
     (229, [197]), (230, [198]), (231, [199]), (232, [200]), (233, [201]), (234, [202]),
     (235, [203]), (236, [204]), (237, [205]), (238, [206]), (239, [207]), (240, [208]),
     (241, [209]), (242, [210]), (243, [211]), (244, [212]), (245, [213]), (246, [214]),
     (248, [216]), (249, [217]), (250, [218]), (251, [219]), (252, [220]), (253, [221]),
     (254, [222]), (255, [376]), (257, [256]), (259, [258]), (261, [260]), (263, [262]),
     (265, [264]), (267, [266]), (269, [268]), (271, [270]), (273, [272]), (275, [274]),
     (277, [276]), (279, [278]), (281, [280]), (283, [282]), (285, [284]), (287, [286]),
     (289, [288]), (291, [290]), (293, [292]), (295, [294]), (297, [296]), (299, [298]),
     (301, [300]), (303, [302]), (307, [306]), (309, [308]), (311, [310]), (314, [313]),
     (316, [315]), (318, [317]), (320, [319]), (322, [321]), (324, [323]), (326, [325]),
     (328, [327]), (329, [700, 78]), (331, [330]), (333, [332]), (335, [334]), (337, [336]),
     (339, [338]), (341, [340]), (343, [342]), (345, [344]), (347, [346]), (349, [348]),
     (351, [350]), (353, [352]), (355, [354]), (357, [356]), (359, [358]), (361, [360]),
     (363, [362]), (365, [364]), (367, [366]), (369, [368]), (371, [370]), (373, [372]),
     (375, [374]), (378, [377]), (380, [379]), (382, [381]), (384, [579]), (387, [386]),
     (389, [388]), (392, [391]), (396, [395]), (402, [401])]"

definition other_uppers_1 :: "(nat \<times> nat list) list" where
  "other_uppers_1 =
    [(405, [502]), (409, [408]), (410, [573]), (414, [544]), (417, [416]), (419, [418]),
     (421, [420]), (424, [423]), (429, [428]), (432, [431]), (436, [435]), (438, [437]),
     (441, [440]), (445, [444]), (447, [503]), (453, [452]), (454, [452]), (456, [455]),
     (457, [455]), (459, [458]), (460, [458]), (462, [461]), (464, [463]), (466, [465]),
     (468, [467]), (470, [469]), (472, [471]), (474, [473]), (476, [475]), (477, [398]),
     (479, [478]), (481, [480]), (483, [482]), (485, [484]), (487, [486]), (489, [488]),
     (491, [490]), (493, [492]), (495, [494]), (496, [74, 780]), (498, [497]), (499, [497]),
     (501, [500]), (505, [504]), (507, [506]), (509, [508]), (511, [510]), (513, [512]),
     (515, [514]), (517, [516]), (519, [518]), (521, [520]), (523, [522]), (525, [524]),
     (527, [526]), (529, [528]), (531, [530]), (533, [532]), (535, [534]), (537, [536]),
     (539, [538]), (541, [540]), (543, [542]), (547, [546]), (549, [548]), (551, [550]),
     (553, [552]), (555, [554]), (557, [556]), (559, [558]), (561, [560]), (563, [562]),
     (572, [571]), (575, [11390]), (576, [11391]), (578, [577]), (583, [582]), (585, [584]),
     (587, [586]), (589, [588]), (591, [590]), (592, [11375]), (593, [11373]), (594, [11376]),
     (595, [385]), (596, [390]), (598, [393]), (599, [394]), (601, [399]), (603, [400]),
     (604, [42923]), (608, [403]), (609, [42924]), (611, [404]), (613, [42893]),
     (614, [42922]), (616, [407]), (617, [406]), (618, [42926]), (619, [11362])]"

definition other_uppers_2 :: "(nat \<times> nat list) list" where
  "other_uppers_2 =
    [(620, [42925]), (623, [412]), (625, [11374]), (626, [413]), (629, [415]), (637, [11364]),
     (640, [422]), (642, [42949]), (643, [425]), (647, [42929]), (648, [430]), (649, [580]),
     (650, [433]), (651, [434]), (652, [581]), (658, [439]), (669, [42930]), (670, [42928]),
     (837, [921]), (881, [880]), (883, [882]), (887, [886]), (891, [1021]), (892, [1022]),
     (893, [1023]), (912, [921, 776, 769]), (940, [902]), (941, [904]), (942, [905]),
     (943, [906]), (944, [933, 776, 769]), (945, [913]), (946, [914]), (947, [915]),
     (948, [916]), (949, [917]), (950, [918]), (951, [919]), (952, [920]), (953, [921]),
     (954, [922]), (955, [923]), (956, [924]), (957, [925]), (958, [926]), (959, [927]),
     (960, [928]), (961, [929]), (962, [931]), (963, [931]), (964, [932]), (965, [933]),
     (966, [934]), (967, [935]), (968, [936]), (969, [937]), (970, [938]), (971, [939]),
     (972, [908]), (973, [910]), (974, [911]), (976, [914]), (977, [920]), (981, [934]),
     (982, [928]), (983, [975]), (985, [984]), (987, [986]), (989, [988]), (991, [990]),
     (993, [992]), (995, [994]), (997, [996]), (999, [998]), (1001, [1000]), (1003, [1002]),
     (1005, [1004]), (1007, [1006]), (1008, [922]), (1009, [929]), (1010, [1017]),
     (1011, [895]), (1013, [917]), (1016, [1015]), (1019, [1018]), (1072, [1040]),
     (1073, [1041]), (1074, [1042]), (1075, [1043]), (1076, [1044]), (1077, [1045]),
     (1078, [1046]), (1079, [1047]), (1080, [1048]), (1081, [1049]), (1082, [1050]),
     (1083, [1051]), (1084, [1052]), (1085, [1053]), (1086, [1054])]"

definition other_uppers_3 :: "(nat \<times> nat list) list" where
  "other_uppers_3 =
    [(1087, [1055]), (1088, [1056]), (1089, [1057]), (1090, [1058]), (1091, [1059]),
     (1092, [1060]), (1093, [1061]), (1094, [1062]), (1095, [1063]), (1096, [1064]),
     (1097, [1065]), (1098, [1066]), (1099, [1067]), (1100, [1068]), (1101, [1069]),
     (1102, [1070]), (1103, [1071]), (1104, [1024]), (1105, [1025]), (1106, [1026]),
     (1107, [1027]), (1108, [1028]), (1109, [1029]), (1110, [1030]), (1111, [1031]),
     (1112, [1032]), (1113, [1033]), (1114, [1034]), (1115, [1035]), (1116, [1036]),
     (1117, [1037]), (1118, [1038]), (1119, [1039]), (1121, [1120]), (1123, [1122]),
     (1125, [1124]), (1127, [1126]), (1129, [1128]), (1131, [1130]), (1133, [1132]),
     (1135, [1134]), (1137, [1136]), (1139, [1138]), (1141, [1140]), (1143, [1142]),
     (1145, [1144]), (1147, [1146]), (1149, [1148]), (1151, [1150]), (1153, [1152]),
     (1163, [1162]), (1165, [1164]), (1167, [1166]), (1169, [1168]), (1171, [1170]),
     (1173, [1172]), (1175, [1174]), (1177, [1176]), (1179, [1178]), (1181, [1180]),
     (1183, [1182]), (1185, [1184]), (1187, [1186]), (1189, [1188]), (1191, [1190]),
     (1193, [1192]), (1195, [1194]), (1197, [1196]), (1199, [1198]), (1201, [1200]),
     (1203, [1202]), (1205, [1204]), (1207, [1206]), (1209, [1208]), (1211, [1210]),
     (1213, [1212]), (1215, [1214]), (1218, [1217]), (1220, [1219]), (1222, [1221]),
     (1224, [1223]), (1226, [1225]), (1228, [1227]), (1230, [1229]), (1231, [1216]),
     (1233, [1232]), (1235, [1234]), (1237, [1236]), (1239, [1238]), (1241, [1240]),
     (1243, [1242]), (1245, [1244]), (1247, [1246]), (1249, [1248]), (1251, [1250]),
     (1253, [1252]), (1255, [1254]), (1257, [1256]), (1259, [1258]), (1261, [1260])]"

definition other_uppers_4 :: "(nat \<times> nat list) list" where
  "other_uppers_4 =
    [(1263, [1262]), (1265, [1264]), (1267, [1266]), (1269, [1268]), (1271, [1270]),
     (1273, [1272]), (1275, [1274]), (1277, [1276]), (1279, [1278]), (1281, [1280]),
     (1283, [1282]), (1285, [1284]), (1287, [1286]), (1289, [1288]), (1291, [1290]),
     (1293, [1292]), (1295, [1294]), (1297, [1296]), (1299, [1298]), (1301, [1300]),
     (1303, [1302]), (1305, [1304]), (1307, [1306]), (1309, [1308]), (1311, [1310]),
     (1313, [1312]), (1315, [1314]), (1317, [1316]), (1319, [1318]), (1321, [1320]),
     (1323, [1322]), (1325, [1324]), (1327, [1326]), (1377, [1329]), (1378, [1330]),
     (1379, [1331]), (1380, [1332]), (1381, [1333]), (1382, [1334]), (1383, [1335]),
     (1384, [1336]), (1385, [1337]), (1386, [1338]), (1387, [1339]), (1388, [1340]),
     (1389, [1341]), (1390, [1342]), (1391, [1343]), (1392, [1344]), (1393, [1345]),
     (1394, [1346]), (1395, [1347]), (1396, [1348]), (1397, [1349]), (1398, [1350]),
     (1399, [1351]), (1400, [1352]), (1401, [1353]), (1402, [1354]), (1403, [1355]),
     (1404, [1356]), (1405, [1357]), (1406, [1358]), (1407, [1359]), (1408, [1360]),
     (1409, [1361]), (1410, [1362]), (1411, [1363]), (1412, [1364]), (1413, [1365]),
     (1414, [1366]), (1415, [1333, 1362]), (4304, [7312]), (4305, [7313]), (4306, [7314]),
     (4307, [7315]), (4308, [7316]), (4309, [7317]), (4310, [7318]), (4311, [7319]),
     (4312, [7320]), (4313, [7321]), (4314, [7322]), (4315, [7323]), (4316, [7324]),
     (4317, [7325]), (4318, [7326]), (4319, [7327]), (4320, [7328]), (4321, [7329]),
     (4322, [7330]), (4323, [7331]), (4324, [7332]), (4325, [7333]), (4326, [7334]),
     (4327, [7335]), (4328, [7336]), (4329, [7337]), (4330, [7338]), (4331, [7339])]"

definition other_uppers_5 :: "(nat \<times> nat list) list" where
  "other_uppers_5 =
    [(4332, [7340]), (4333, [7341]), (4334, [7342]), (4335, [7343]), (4336, [7344]),
     (4337, [7345]), (4338, [7346]), (4339, [7347]), (4340, [7348]), (4341, [7349]),
     (4342, [7350]), (4343, [7351]), (4344, [7352]), (4345, [7353]), (4346, [7354]),
     (4349, [7357]), (4350, [7358]), (4351, [7359]), (5112, [5104]), (5113, [5105]),
     (5114, [5106]), (5115, [5107]), (5116, [5108]), (5117, [5109]), (7296, [1042]),
     (7297, [1044]), (7298, [1054]), (7299, [1057]), (7300, [1058]), (7301, [1058]),
     (7302, [1066]), (7303, [1122]), (7304, [42570]), (7545, [42877]), (7549, [11363]),
     (7566, [42950]), (7681, [7680]), (7683, [7682]), (7685, [7684]), (7687, [7686]),
     (7689, [7688]), (7691, [7690]), (7693, [7692]), (7695, [7694]), (7697, [7696]),
     (7699, [7698]), (7701, [7700]), (7703, [7702]), (7705, [7704]), (7707, [7706]),
     (7709, [7708]), (7711, [7710]), (7713, [7712]), (7715, [7714]), (7717, [7716]),
     (7719, [7718]), (7721, [7720]), (7723, [7722]), (7725, [7724]), (7727, [7726]),
     (7729, [7728]), (7731, [7730]), (7733, [7732]), (7735, [7734]), (7737, [7736]),
     (7739, [7738]), (7741, [7740]), (7743, [7742]), (7745, [7744]), (7747, [7746]),
     (7749, [7748]), (7751, [7750]), (7753, [7752]), (7755, [7754]), (7757, [7756]),
     (7759, [7758]), (7761, [7760]), (7763, [7762]), (7765, [7764]), (7767, [7766]),
     (7769, [7768]), (7771, [7770]), (7773, [7772]), (7775, [7774]), (7777, [7776]),
     (7779, [7778]), (7781, [7780]), (7783, [7782]), (7785, [7784]), (7787, [7786]),
     (7789, [7788]), (7791, [7790]), (7793, [7792]), (7795, [7794]), (7797, [7796]),
     (7799, [7798]), (7801, [7800]), (7803, [7802]), (7805, [7804]), (7807, [7806])]"

definition other_uppers_6 :: "(nat \<times> nat list) list" where
  "other_uppers_6 =
    [(7809, [7808]), (7811, [7810]), (7813, [7812]), (7815, [7814]), (7817, [7816]),
     (7819, [7818]), (7821, [7820]), (7823, [7822]), (7825, [7824]), (7827, [7826]),
     (7829, [7828]), (7830, [72, 817]), (7831, [84, 776]), (7832, [87, 778]),
     (7833, [89, 778]), (7834, [65, 702]), (7835, [7776]), (7841, [7840]), (7843, [7842]),
     (7845, [7844]), (7847, [7846]), (7849, [7848]), (7851, [7850]), (7853, [7852]),
     (7855, [7854]), (7857, [7856]), (7859, [7858]), (7861, [7860]), (7863, [7862]),
     (7865, [7864]), (7867, [7866]), (7869, [7868]), (7871, [7870]), (7873, [7872]),
     (7875, [7874]), (7877, [7876]), (7879, [7878]), (7881, [7880]), (7883, [7882]),
     (7885, [7884]), (7887, [7886]), (7889, [7888]), (7891, [7890]), (7893, [7892]),
     (7895, [7894]), (7897, [7896]), (7899, [7898]), (7901, [7900]), (7903, [7902]),
     (7905, [7904]), (7907, [7906]), (7909, [7908]), (7911, [7910]), (7913, [7912]),
     (7915, [7914]), (7917, [7916]), (7919, [7918]), (7921, [7920]), (7923, [7922]),
     (7925, [7924]), (7927, [7926]), (7929, [7928]), (7931, [7930]), (7933, [7932]),
     (7935, [7934]), (7936, [7944]), (7937, [7945]), (7938, [7946]), (7939, [7947]),
     (7940, [7948]), (7941, [7949]), (7942, [7950]), (7943, [7951]), (7952, [7960]),
     (7953, [7961]), (7954, [7962]), (7955, [7963]), (7956, [7964]), (7957, [7965]),
     (7968, [7976]), (7969, [7977]), (7970, [7978]), (7971, [7979]), (7972, [7980]),
     (7973, [7981]), (7974, [7982]), (7975, [7983]), (7984, [7992]), (7985, [7993]),
     (7986, [7994]), (7987, [7995]), (7988, [7996]), (7989, [7997]), (7990, [7998]),
     (7991, [7999]), (8000, [8008]), (8001, [8009]), (8002, [8010]), (8003, [8011]),
     (8004, [8012])]"

definition other_uppers_7 :: "(nat \<times> nat list) list" where
  "other_uppers_7 =
    [(8005, [8013]), (8016, [933, 787]), (8017, [8025]), (8018, [933, 787, 768]),
     (8019, [8027]), (8020, [933, 787, 769]), (8021, [8029]), (8022, [933, 787, 834]),
     (8023, [8031]), (8032, [8040]), (8033, [8041]), (8034, [8042]), (8035, [8043]),
     (8036, [8044]), (8037, [8045]), (8038, [8046]), (8039, [8047]), (8048, [8122]),
     (8049, [8123]), (8050, [8136]), (8051, [8137]), (8052, [8138]), (8053, [8139]),
     (8054, [8154]), (8055, [8155]), (8056, [8184]), (8057, [8185]), (8058, [8170]),
     (8059, [8171]), (8060, [8186]), (8061, [8187]), (8064, [7944, 921]), (8065, [7945, 921]),
     (8066, [7946, 921]), (8067, [7947, 921]), (8068, [7948, 921]), (8069, [7949, 921]),
     (8070, [7950, 921]), (8071, [7951, 921]), (8072, [7944, 921]), (8073, [7945, 921]),
     (8074, [7946, 921]), (8075, [7947, 921]), (8076, [7948, 921]), (8077, [7949, 921]),
     (8078, [7950, 921]), (8079, [7951, 921]), (8080, [7976, 921]), (8081, [7977, 921]),
     (8082, [7978, 921]), (8083, [7979, 921]), (8084, [7980, 921]), (8085, [7981, 921]),
     (8086, [7982, 921]), (8087, [7983, 921]), (8088, [7976, 921]), (8089, [7977, 921]),
     (8090, [7978, 921]), (8091, [7979, 921]), (8092, [7980, 921]), (8093, [7981, 921]),
     (8094, [7982, 921]), (8095, [7983, 921]), (8096, [8040, 921]), (8097, [8041, 921]),
     (8098, [8042, 921]), (8099, [8043, 921]), (8100, [8044, 921]), (8101, [8045, 921]),
     (8102, [8046, 921]), (8103, [8047, 921]), (8104, [8040, 921]), (8105, [8041, 921]),
     (8106, [8042, 921]), (8107, [8043, 921]), (8108, [8044, 921]), (8109, [8045, 921]),
     (8110, [8046, 921]), (8111, [8047, 921]), (8112, [8120]), (8113, [8121]),
     (8114, [8122, 921]), (8115, [913, 921]), (8116, [902, 921]), (8118, [913, 834]),
     (8119, [913, 834, 921]), (8124, [913, 921]), (8126, [921]), (8130, [8138, 921]),
     (8131, [919, 921]), (8132, [905, 921]), (8134, [919, 834]), (8135, [919, 834, 921]),
     (8140, [919, 921]), (8144, [8152]), (8145, [8153]), (8146, [921, 776, 768]),
     (8147, [921, 776, 769]), (8150, [921, 834]), (8151, [921, 776, 834])]"

definition other_uppers_8 :: "(nat \<times> nat list) list" where
  "other_uppers_8 =
    [(8160, [8168]), (8161, [8169]), (8162, [933, 776, 768]), (8163, [933, 776, 769]),
     (8164, [929, 787]), (8165, [8172]), (8166, [933, 834]), (8167, [933, 776, 834]),
     (8178, [8186, 921]), (8179, [937, 921]), (8180, [911, 921]), (8182, [937, 834]),
     (8183, [937, 834, 921]), (8188, [937, 921]), (8526, [8498]), (8560, [8544]),
     (8561, [8545]), (8562, [8546]), (8563, [8547]), (8564, [8548]), (8565, [8549]),
     (8566, [8550]), (8567, [8551]), (8568, [8552]), (8569, [8553]), (8570, [8554]),
     (8571, [8555]), (8572, [8556]), (8573, [8557]), (8574, [8558]), (8575, [8559]),
     (8580, [8579]), (9424, [9398]), (9425, [9399]), (9426, [9400]), (9427, [9401]),
     (9428, [9402]), (9429, [9403]), (9430, [9404]), (9431, [9405]), (9432, [9406]),
     (9433, [9407]), (9434, [9408]), (9435, [9409]), (9436, [9410]), (9437, [9411]),
     (9438, [9412]), (9439, [9413]), (9440, [9414]), (9441, [9415]), (9442, [9416]),
     (9443, [9417]), (9444, [9418]), (9445, [9419]), (9446, [9420]), (9447, [9421]),
     (9448, [9422]), (9449, [9423]), (11312, [11264]), (11313, [11265]), (11314, [11266]),
     (11315, [11267]), (11316, [11268]), (11317, [11269]), (11318, [11270]), (11319, [11271]),
     (11320, [11272]), (11321, [11273]), (11322, [11274]), (11323, [11275]), (11324, [11276]),
     (11325, [11277]), (11326, [11278]), (11327, [11279]), (11328, [11280]), (11329, [11281]),
     (11330, [11282]), (11331, [11283]), (11332, [11284]), (11333, [11285]), (11334, [11286]),
     (11335, [11287]), (11336, [11288]), (11337, [11289]), (11338, [11290]), (11339, [11291]),
     (11340, [11292]), (11341, [11293]), (11342, [11294]), (11343, [11295]), (11344, [11296]),
     (11345, [11297]), (11346, [11298]), (11347, [11299]), (11348, [11300]), (11349, [11301]),
     (11350, [11302]), (11351, [11303]), (11352, [11304]), (11353, [11305])]"

definition other_uppers_9 :: "(nat \<times> nat list) list" where
  "other_uppers_9 =
    [(11354, [11306]), (11355, [11307]), (11356, [11308]), (11357, [11309]), (11358, [11310]),
     (11359, [11311]), (11361, [11360]), (11365, [570]), (11366, [574]), (11368, [11367]),
     (11370, [11369]), (11372, [11371]), (11379, [11378]), (11382, [11381]), (11393, [11392]),
     (11395, [11394]), (11397, [11396]), (11399, [11398]), (11401, [11400]), (11403, [11402]),
     (11405, [11404]), (11407, [11406]), (11409, [11408]), (11411, [11410]), (11413, [11412]),
     (11415, [11414]), (11417, [11416]), (11419, [11418]), (11421, [11420]), (11423, [11422]),
     (11425, [11424]), (11427, [11426]), (11429, [11428]), (11431, [11430]), (11433, [11432]),
     (11435, [11434]), (11437, [11436]), (11439, [11438]), (11441, [11440]), (11443, [11442]),
     (11445, [11444]), (11447, [11446]), (11449, [11448]), (11451, [11450]), (11453, [11452]),
     (11455, [11454]), (11457, [11456]), (11459, [11458]), (11461, [11460]), (11463, [11462]),
     (11465, [11464]), (11467, [11466]), (11469, [11468]), (11471, [11470]), (11473, [11472]),
     (11475, [11474]), (11477, [11476]), (11479, [11478]), (11481, [11480]), (11483, [11482]),
     (11485, [11484]), (11487, [11486]), (11489, [11488]), (11491, [11490]), (11500, [11499]),
     (11502, [11501]), (11507, [11506]), (11520, [4256]), (11521, [4257]), (11522, [4258]),
     (11523, [4259]), (11524, [4260]), (11525, [4261]), (11526, [4262]), (11527, [4263]),
     (11528, [4264]), (11529, [4265]), (11530, [4266]), (11531, [4267]), (11532, [4268]),
     (11533, [4269]), (11534, [4270]), (11535, [4271]), (11536, [4272]), (11537, [4273]),
     (11538, [4274]), (11539, [4275]), (11540, [4276]), (11541, [4277]), (11542, [4278]),
     (11543, [4279]), (11544, [4280]), (11545, [4281]), (11546, [4282]), (11547, [4283]),
     (11548, [4284]), (11549, [4285]), (11550, [4286]), (11551, [4287]), (11552, [4288])]"

definition other_uppers_10 :: "(nat \<times> nat list) list" where
  "other_uppers_10 =
    [(11553, [4289]), (11554, [4290]), (11555, [4291]), (11556, [4292]), (11557, [4293]),
     (11559, [4295]), (11565, [4301]), (42561, [42560]), (42563, [42562]), (42565, [42564]),
     (42567, [42566]), (42569, [42568]), (42571, [42570]), (42573, [42572]), (42575, [42574]),
     (42577, [42576]), (42579, [42578]), (42581, [42580]), (42583, [42582]), (42585, [42584]),
     (42587, [42586]), (42589, [42588]), (42591, [42590]), (42593, [42592]), (42595, [42594]),
     (42597, [42596]), (42599, [42598]), (42601, [42600]), (42603, [42602]), (42605, [42604]),
     (42625, [42624]), (42627, [42626]), (42629, [42628]), (42631, [42630]), (42633, [42632]),
     (42635, [42634]), (42637, [42636]), (42639, [42638]), (42641, [42640]), (42643, [42642]),
     (42645, [42644]), (42647, [42646]), (42649, [42648]), (42651, [42650]), (42787, [42786]),
     (42789, [42788]), (42791, [42790]), (42793, [42792]), (42795, [42794]), (42797, [42796]),
     (42799, [42798]), (42803, [42802]), (42805, [42804]), (42807, [42806]), (42809, [42808]),
     (42811, [42810]), (42813, [42812]), (42815, [42814]), (42817, [42816]), (42819, [42818]),
     (42821, [42820]), (42823, [42822]), (42825, [42824]), (42827, [42826]), (42829, [42828]),
     (42831, [42830]), (42833, [42832]), (42835, [42834]), (42837, [42836]), (42839, [42838]),
     (42841, [42840]), (42843, [42842]), (42845, [42844]), (42847, [42846]), (42849, [42848]),
     (42851, [42850]), (42853, [42852]), (42855, [42854]), (42857, [42856]), (42859, [42858]),
     (42861, [42860]), (42863, [42862]), (42874, [42873]), (42876, [42875]), (42879, [42878]),
     (42881, [42880]), (42883, [42882]), (42885, [42884]), (42887, [42886]), (42892, [42891]),
     (42897, [42896]), (42899, [42898]), (42900, [42948]), (42903, [42902]), (42905, [42904]),
     (42907, [42906]), (42909, [42908]), (42911, [42910]), (42913, [42912]), (42915, [42914])]"

definition other_uppers_11 :: "(nat \<times> nat list) list" where
  "other_uppers_11 =
    [(42917, [42916]), (42919, [42918]), (42921, [42920]), (42933, [42932]), (42935, [42934]),
     (42937, [42936]), (42939, [42938]), (42941, [42940]), (42943, [42942]), (42945, [42944]),
     (42947, [42946]), (42952, [42951]), (42954, [42953]), (42961, [42960]), (42967, [42966]),
     (42969, [42968]), (42998, [42997]), (43859, [42931]), (43888, [5024]), (43889, [5025]),
     (43890, [5026]), (43891, [5027]), (43892, [5028]), (43893, [5029]), (43894, [5030]),
     (43895, [5031]), (43896, [5032]), (43897, [5033]), (43898, [5034]), (43899, [5035]),
     (43900, [5036]), (43901, [5037]), (43902, [5038]), (43903, [5039]), (43904, [5040]),
     (43905, [5041]), (43906, [5042]), (43907, [5043]), (43908, [5044]), (43909, [5045]),
     (43910, [5046]), (43911, [5047]), (43912, [5048]), (43913, [5049]), (43914, [5050]),
     (43915, [5051]), (43916, [5052]), (43917, [5053]), (43918, [5054]), (43919, [5055]),
     (43920, [5056]), (43921, [5057]), (43922, [5058]), (43923, [5059]), (43924, [5060]),
     (43925, [5061]), (43926, [5062]), (43927, [5063]), (43928, [5064]), (43929, [5065]),
     (43930, [5066]), (43931, [5067]), (43932, [5068]), (43933, [5069]), (43934, [5070]),
     (43935, [5071]), (43936, [5072]), (43937, [5073]), (43938, [5074]), (43939, [5075]),
     (43940, [5076]), (43941, [5077]), (43942, [5078]), (43943, [5079]), (43944, [5080]),
     (43945, [5081]), (43946, [5082]), (43947, [5083]), (43948, [5084]), (43949, [5085]),
     (43950, [5086]), (43951, [5087]), (43952, [5088]), (43953, [5089]), (43954, [5090]),
     (43955, [5091]), (43956, [5092]), (43957, [5093]), (43958, [5094]), (43959, [5095]),
     (43960, [5096]), (43961, [5097]), (43962, [5098]), (43963, [5099]), (43964, [5100]),
     (43965, [5101]), (43966, [5102]), (43967, [5103]), (64275, [1348, 1350]),
     (64276, [1348, 1333])]"

definition other_uppers_12 :: "(nat \<times> nat list) list" where
  "other_uppers_12 =
    [(64277, [1348, 1339]), (64278, [1358, 1350]), (64279, [1348, 1341]), (65345, [65313]),
     (65346, [65314]), (65347, [65315]), (65348, [65316]), (65349, [65317]), (65350, [65318]),
     (65351, [65319]), (65352, [65320]), (65353, [65321]), (65354, [65322]), (65355, [65323]),
     (65356, [65324]), (65357, [65325]), (65358, [65326]), (65359, [65327]), (65360, [65328]),
     (65361, [65329]), (65362, [65330]), (65363, [65331]), (65364, [65332]), (65365, [65333]),
     (65366, [65334]), (65367, [65335]), (65368, [65336]), (65369, [65337]), (65370, [65338]),
     (66600, [66560]), (66601, [66561]), (66602, [66562]), (66603, [66563]), (66604, [66564]),
     (66605, [66565]), (66606, [66566]), (66607, [66567]), (66608, [66568]), (66609, [66569]),
     (66610, [66570]), (66611, [66571]), (66612, [66572]), (66613, [66573]), (66614, [66574]),
     (66615, [66575]), (66616, [66576]), (66617, [66577]), (66618, [66578]), (66619, [66579]),
     (66620, [66580]), (66621, [66581]), (66622, [66582]), (66623, [66583]), (66624, [66584]),
     (66625, [66585]), (66626, [66586]), (66627, [66587]), (66628, [66588]), (66629, [66589]),
     (66630, [66590]), (66631, [66591]), (66632, [66592]), (66633, [66593]), (66634, [66594]),
     (66635, [66595]), (66636, [66596]), (66637, [66597]), (66638, [66598]), (66639, [66599]),
     (66776, [66736]), (66777, [66737]), (66778, [66738]), (66779, [66739]), (66780, [66740]),
     (66781, [66741]), (66782, [66742]), (66783, [66743]), (66784, [66744]), (66785, [66745]),
     (66786, [66746]), (66787, [66747]), (66788, [66748]), (66789, [66749]), (66790, [66750]),
     (66791, [66751]), (66792, [66752]), (66793, [66753]), (66794, [66754]), (66795, [66755]),
     (66796, [66756]), (66797, [66757]), (66798, [66758]), (66799, [66759]), (66800, [66760]),
     (66801, [66761]), (66802, [66762]), (66803, [66763]), (66804, [66764]), (66805, [66765]),
     (66806, [66766])]"

definition other_uppers_13 :: "(nat \<times> nat list) list" where
  "other_uppers_13 =
    [(66807, [66767]), (66808, [66768]), (66809, [66769]), (66810, [66770]), (66811, [66771]),
     (66967, [66928]), (66968, [66929]), (66969, [66930]), (66970, [66931]), (66971, [66932]),
     (66972, [66933]), (66973, [66934]), (66974, [66935]), (66975, [66936]), (66976, [66937]),
     (66977, [66938]), (66979, [66940]), (66980, [66941]), (66981, [66942]), (66982, [66943]),
     (66983, [66944]), (66984, [66945]), (66985, [66946]), (66986, [66947]), (66987, [66948]),
     (66988, [66949]), (66989, [66950]), (66990, [66951]), (66991, [66952]), (66992, [66953]),
     (66993, [66954]), (66995, [66956]), (66996, [66957]), (66997, [66958]), (66998, [66959]),
     (66999, [66960]), (67000, [66961]), (67001, [66962]), (67003, [66964]), (67004, [66965]),
     (68800, [68736]), (68801, [68737]), (68802, [68738]), (68803, [68739]), (68804, [68740]),
     (68805, [68741]), (68806, [68742]), (68807, [68743]), (68808, [68744]), (68809, [68745]),
     (68810, [68746]), (68811, [68747]), (68812, [68748]), (68813, [68749]), (68814, [68750]),
     (68815, [68751]), (68816, [68752]), (68817, [68753]), (68818, [68754]), (68819, [68755]),
     (68820, [68756]), (68821, [68757]), (68822, [68758]), (68823, [68759]), (68824, [68760]),
     (68825, [68761]), (68826, [68762]), (68827, [68763]), (68828, [68764]), (68829, [68765]),
     (68830, [68766]), (68831, [68767]), (68832, [68768]), (68833, [68769]), (68834, [68770]),
     (68835, [68771]), (68836, [68772]), (68837, [68773]), (68838, [68774]), (68839, [68775]),
     (68840, [68776]), (68841, [68777]), (68842, [68778]), (68843, [68779]), (68844, [68780]),
     (68845, [68781]), (68846, [68782]), (68847, [68783]), (68848, [68784]), (68849, [68785]),
     (68850, [68786]), (71872, [71840]), (71873, [71841]), (71874, [71842]), (71875, [71843]),
     (71876, [71844]), (71877, [71845]), (71878, [71846]), (71879, [71847]), (71880, [71848])]"

definition other_uppers_14 :: "(nat \<times> nat list) list" where
  "other_uppers_14 =
    [(71881, [71849]), (71882, [71850]), (71883, [71851]), (71884, [71852]), (71885, [71853]),
     (71886, [71854]), (71887, [71855]), (71888, [71856]), (71889, [71857]), (71890, [71858]),
     (71891, [71859]), (71892, [71860]), (71893, [71861]), (71894, [71862]), (71895, [71863]),
     (71896, [71864]), (71897, [71865]), (71898, [71866]), (71899, [71867]), (71900, [71868]),
     (71901, [71869]), (71902, [71870]), (71903, [71871]), (93792, [93760]), (93793, [93761]),
     (93794, [93762]), (93795, [93763]), (93796, [93764]), (93797, [93765]), (93798, [93766]),
     (93799, [93767]), (93800, [93768]), (93801, [93769]), (93802, [93770]), (93803, [93771]),
     (93804, [93772]), (93805, [93773]), (93806, [93774]), (93807, [93775]), (93808, [93776]),
     (93809, [93777]), (93810, [93778]), (93811, [93779]), (93812, [93780]), (93813, [93781]),
     (93814, [93782]), (93815, [93783]), (93816, [93784]), (93817, [93785]), (93818, [93786]),
     (93819, [93787]), (93820, [93788]), (93821, [93789]), (93822, [93790]), (93823, [93791]),
     (125218, [125184]), (125219, [125185]), (125220, [125186]), (125221, [125187]),
     (125222, [125188]), (125223, [125189]), (125224, [125190]), (125225, [125191]),
     (125226, [125192]), (125227, [125193]), (125228, [125194]), (125229, [125195]),
     (125230, [125196]), (125231, [125197]), (125232, [125198]), (125233, [125199]),
     (125234, [125200]), (125235, [125201]), (125236, [125202]), (125237, [125203]),
     (125238, [125204]), (125239, [125205]), (125240, [125206]), (125241, [125207]),
     (125242, [125208]), (125243, [125209]), (125244, [125210]), (125245, [125211]),
     (125246, [125212]), (125247, [125213]), (125248, [125214]), (125249, [125215]),
     (125250, [125216]), (125251, [125217])]"

definition other_uppers :: "(nat \<times> nat list) list" where
  "other_uppers =
     other_uppers_0 @
     other_uppers_1 @
     other_uppers_2 @
     other_uppers_3 @
     other_uppers_4 @
     other_uppers_5 @
     other_uppers_6 @
     other_uppers_7 @
     other_uppers_8 @
     other_uppers_9 @
     other_uppers_10 @
     other_uppers_11 @
     other_uppers_12 @
     other_uppers_13 @
     other_uppers_14"

text \<open>The table with every character and its upper case in UTF-8.\<close>

definition utf8_entry :: "nat \<times> nat list \<Rightarrow> string \<times> string" where
  "utf8_entry e = (utf8_encode (fst e), concat (map utf8_encode (snd e)))"

definition upper_table :: "(string \<times> string) list" where
  "upper_table = map utf8_entry special_uppers @ map utf8_entry other_uppers"

text \<open>The upper case of one character, and of a string character by character.\<close>

definition upper_char :: "string \<Rightarrow> string" where
  "upper_char ch =
     (case ch of
        [c] \<Rightarrow> [ascii_upper c]
      | _ \<Rightarrow> (case map_of upper_table ch of Some u \<Rightarrow> u | None \<Rightarrow> ch))"

fun upper :: "string \<Rightarrow> string" where
  "upper [] = []"
| "upper (c # cs) =
     upper_char (c # take (utf8_len c - 1) cs) @ upper (drop (utf8_len c - 1) cs)"

text \<open>\<^verbatim>\<open>v.startswith("http")\<close>.\<close>

definition startswith_http :: "string \<Rightarrow> bool" where
  "startswith_http v = (take 4 v = ''http'')"

section \<open>Exceptions, the clock and the remote service\<close>

text \<open>
  \<open>transport\<close> is what a \<^verbatim>\<open>requests\<close> call can raise: \<^verbatim>\<open>requests.HTTPError\<close> from
  \<^verbatim>\<open>raise_for_status()\<close>, or any other \<^verbatim>\<open>requests\<close> exception (connection failure,
  request timeout, a body that is not JSON). Each carries its message text.
  \<open>exn\<close> lists the exceptions that can travel through the functions modelled here;
  \<open>TimeoutError\<close> keeps the \<^verbatim>\<open>timeout_seconds\<close> of its message and \<open>RuntimeError\<close> the
  status payload that its message prints.
\<close>

datatype transport = HTTPError string | RequestFailed string

datatype exn =
    Requests transport
  | TimeoutError int
  | RuntimeError json
  | AttributeError
  | TypeError
  | ValueError
  | BinasciiError

text \<open>
  The effects of the poll loop, in the order they happen. \<open>now\<close> is the clock that
  \<^verbatim>\<open>time.time()\<close> reads, \<open>polls\<close> counts the status requests made so far and
  \<open>trace\<close> records every effect.
\<close>

datatype event =
    ReadStart
  | GetStatus json
  | GetResult json
  | CheckTimeout
  | Sleep rat

record world =
  now :: rat
  polls :: nat
  trace :: "event list"

text \<open>
  The remote service and the configuration read from the environment.
  \<open>get_status env rid k\<close> is the outcome of the \<open>k\<close>-th status request for request id
  \<open>rid\<close> (after \<^verbatim>\<open>raise_for_status()\<close> and \<^verbatim>\<open>resp.json()\<close>) and \<open>status_time env k\<close> the
  time that request takes; \<open>get_url env u\<close> is the outcome of \<^verbatim>\<open>requests.get(u)\<close>: the
  body and the \<^verbatim>\<open>Content-Type\<close> header when there is one.
\<close>

record env =
  access_key :: bool
  poll_timeout :: int
  poll_interval :: rat
  post_invoke :: "json \<Rightarrow> transport + json"
  get_status :: "json \<Rightarrow> nat \<Rightarrow> transport + json"
  status_time :: "nat \<Rightarrow> rat"
  get_result :: "json \<Rightarrow> transport + json"
  get_url :: "json \<Rightarrow> transport + bytes \<times> string option"
  make_filename :: "json \<Rightarrow> exn + string"
  put_object :: "bytes \<Rightarrow> string \<Rightarrow> string option"

definition log_event :: "event \<Rightarrow> world \<Rightarrow> world" where
  "log_event e w = w\<lparr>trace := trace w @ [e]\<rparr>"

section \<open>The poller\<close>

text \<open>\<^verbatim>\<open>get_job_status(request_id)\<close>: one status request; the clock moves on by the time
  the request takes.\<close>

definition get_job_status :: "env \<Rightarrow> json \<Rightarrow> world \<Rightarrow> (exn + json) \<times> world" where
  "get_job_status env rid w =
     (let k = polls w;
          w' = log_event (GetStatus rid) (w\<lparr>now := now w + status_time env k, polls := Suc k\<rparr>)
      in (case get_status env rid k of
            Inl t \<Rightarrow> (Inl (Requests t), w')
          | Inr j \<Rightarrow> (Inr j, w')))"

text \<open>\<^verbatim>\<open>get_job_result(request_id)\<close>: the separate request for the final result.\<close>

definition get_job_result :: "env \<Rightarrow> json \<Rightarrow> world \<Rightarrow> (exn + json) \<times> world" where
  "get_job_result env rid w =
     (let w' = log_event (GetResult rid) w
      in (case get_result env rid of
            Inl t \<Rightarrow> (Inl (Requests t), w')
          | Inr j \<Rightarrow> (Inr j, w')))"

text \<open>Line 115:
  \<^verbatim>\<open>(status_json.get("status") or status_json.get("state") or "").upper()\<close>.
  \<^verbatim>\<open>.get\<close> exists on a dict only and \<^verbatim>\<open>.upper\<close> on a string only.\<close>

definition status_val :: "json \<Rightarrow> exn + string" where
  "status_val status_json =
     (case status_json of
        JObj kvs \<Rightarrow>
          (case py_or (py_or (dict_get kvs ''status'') (dict_get kvs ''state'')) (JStr '''') of
             JStr s \<Rightarrow> Inr (upper s)
           | _ \<Rightarrow> Inl AttributeError)
      | _ \<Rightarrow> Inl AttributeError)"

text \<open>Lines 117 and 120: the two membership tests on the normalised status word, in
  the order the code makes them.\<close>

datatype job_status = Complete | Failed | Pending

definition success_words :: "string list" where
  "success_words = [''COMPLETE'', ''SUCCEEDED'', ''SUCCESS'']"

definition failure_words :: "string list" where
  "failure_words = [''FAILED'', ''ERROR'']"

definition classify :: "string \<Rightarrow> job_status" where
  "classify sv =
     (if sv \<in> set success_words then Complete
      else if sv \<in> set failure_words then Failed
      else Pending)"

text \<open>One pass through the body of \<^verbatim>\<open>while True\<close>: either the function leaves the loop
  (returning or raising) or it has slept and goes round again. \<^verbatim>\<open>time.sleep\<close> raises
  \<^verbatim>\<open>ValueError\<close> for a negative interval.\<close>

datatype 'a pass = Leave 'a world | Again world

definition poll_pass ::
  "env \<Rightarrow> json \<Rightarrow> int \<Rightarrow> rat \<Rightarrow> rat \<Rightarrow> world \<Rightarrow> (exn + json) pass" where
  "poll_pass env rid timeout_seconds interval start w =
     (case get_job_status env rid w of
        (Inl e, w1) \<Rightarrow> Leave (Inl e) w1
      | (Inr status_json, w1) \<Rightarrow>
          (case status_val status_json of
             Inl e \<Rightarrow> Leave (Inl e) w1
           | Inr sv \<Rightarrow>
               (case classify sv of
                  Complete \<Rightarrow> (case get_job_result env rid w1 of (r, w2) \<Rightarrow> Leave r w2)
                | Failed \<Rightarrow> Leave (Inl (RuntimeError status_json)) w1
                | Pending \<Rightarrow>
                    (let w2 = log_event CheckTimeout w1 in
                     if now w2 - start > of_int timeout_seconds then
                       Leave (Inl (TimeoutError timeout_seconds)) w2
                     else if interval < 0 then
                       Leave (Inl ValueError) w2
                     else
                       Again (log_event (Sleep interval) (w2\<lparr>now := now w2 + interval\<rparr>))))))"

text \<open>The loop, with a bound on the number of passes: \<open>None\<close> when the bound is
  reached before the loop is left.\<close>

fun poll_loop ::
  "nat \<Rightarrow> env \<Rightarrow> json \<Rightarrow> int \<Rightarrow> rat \<Rightarrow> rat \<Rightarrow> world \<Rightarrow> ((exn + json) \<times> world) option" where
  "poll_loop 0 env rid timeout_seconds interval start w = None"
| "poll_loop (Suc n) env rid timeout_seconds interval start w =
     (case poll_pass env rid timeout_seconds interval start w of
        Leave r w' \<Rightarrow> Some (r, w')
      | Again w' \<Rightarrow> poll_loop n env rid timeout_seconds interval start w')"

definition poll_until_complete ::
  "nat \<Rightarrow> env \<Rightarrow> json \<Rightarrow> int \<Rightarrow> rat \<Rightarrow> world \<Rightarrow> ((exn + json) \<times> world) option" where
  "poll_until_complete fuel env rid timeout_seconds interval w =
     poll_loop fuel env rid timeout_seconds interval (now w) (log_event ReadStart w)"

text \<open>What a caller can observe of a run of the poller: the outcome and the time that
  passed on the clock.\<close>

definition poll_report ::
  "nat \<Rightarrow> env \<Rightarrow> json \<Rightarrow> int \<Rightarrow> rat \<Rightarrow> world \<Rightarrow> ((exn + json) \<times> rat) option" where
  "poll_report fuel env rid timeout_seconds interval w =
     map_option (\<lambda>(r, w'). (r, now w' - now w))
       (poll_until_complete fuel env rid timeout_seconds interval w)"

section \<open>The result extractor\<close>

text \<open>
  \<^verbatim>\<open>base64.b64decode\<close> belongs to Python's standard library, not to the repository. It
  is written out here the way CPython implements its default, lenient mode
  (\<^verbatim>\<open>binascii.a2b_base64\<close>): characters outside the alphabet are skipped, a pad
  character ends the input once it completes a group of four, and input that stops
  inside a group raises \<^verbatim>\<open>binascii.Error\<close>. A string with a character beyond ASCII
  raises \<^verbatim>\<open>ValueError\<close> and a value that is no string raises \<^verbatim>\<open>TypeError\<close>.
\<close>

definition b64_value :: "char \<Rightarrow> nat option" where
  "b64_value c =
     (let n = (of_char c :: nat) in
      if 65 \<le> n \<and> n \<le> 90 then Some (n - 65)
      else if 97 \<le> n \<and> n \<le> 122 then Some (n - 71)
      else if 48 \<le> n \<and> n \<le> 57 then Some (n + 4)
      else if n = 43 then Some 62
      else if n = 47 then Some 63
      else None)"

fun a2b_base64 :: "bytes \<Rightarrow> nat \<Rightarrow> nat \<Rightarrow> nat \<Rightarrow> string \<Rightarrow> exn + bytes" where
  "a2b_base64 out quad_pos leftchar pads [] =
     (if quad_pos = 0 then Inr out else Inl BinasciiError)"
| "a2b_base64 out quad_pos leftchar pads (c # cs) =
     (if c = CHR ''='' then
        (if 2 \<le> quad_pos \<and> 4 \<le> quad_pos + (pads + 1) then Inr out
         else a2b_base64 out quad_pos leftchar (if 2 \<le> quad_pos then pads + 1 else pads) cs)
      else
        (case b64_value c of
           None \<Rightarrow> a2b_base64 out quad_pos leftchar pads cs
         | Some v \<Rightarrow>
             if quad_pos = 0 then a2b_base64 out 1 v 0 cs
             else if quad_pos = 1 then
               a2b_base64 (out @ [char_of (leftchar * 4 + v div 16)]) 2 (v mod 16) 0 cs
             else if quad_pos = 2 then
               a2b_base64 (out @ [char_of (leftchar * 16 + v div 4)]) 3 (v mod 4) 0 cs
             else
               a2b_base64 (out @ [char_of (leftchar * 64 + v)]) 0 0 0 cs))"

definition b64decode :: "json \<Rightarrow> exn + bytes" where
  "b64decode v =
     (case v of
        JStr s \<Rightarrow>
          if list_all (\<lambda>c. (of_char c :: nat) < 128) s then a2b_base64 [] 0 0 0 s
          else Inl ValueError
      | _ \<Rightarrow> Inl TypeError)"

text \<open>Lines 138 to 140 (and again 149 to 151, 178 to 180): fetch a URL, return the body
  and the declared content type, \<^verbatim>\<open>image/png\<close> when the header is absent.\<close>

definition fetch :: "env \<Rightarrow> json \<Rightarrow> exn + (bytes \<times> string) option" where
  "fetch env url =
     (case get_url env url of
        Inl t \<Rightarrow> Inl (Requests t)
      | Inr (content, ctype) \<Rightarrow>
          Inr (Some (content, (case ctype of None \<Rightarrow> ''image/png'' | Some c \<Rightarrow> c))))"

text \<open>\<^verbatim>\<open>find_first_url\<close> (lines 161 to 174). On a dict it walks the items in order: a
  value that is a string starting with \<^verbatim>\<open>http\<close> is returned, otherwise the search
  descends into the value. On a list it descends into each element. On anything else
  it returns \<^verbatim>\<open>None\<close>.\<close>

fun find_first_url :: "json \<Rightarrow> string option"
  and find_in_items :: "(string \<times> json) list \<Rightarrow> string option"
  and find_in_list :: "json list \<Rightarrow> string option" where
  "find_first_url (JObj kvs) = find_in_items kvs"
| "find_first_url (JArr xs) = find_in_list xs"
| "find_first_url JNull = None"
| "find_first_url (JBool b) = None"
| "find_first_url (JNum n) = None"
| "find_first_url (JStr s) = None"
| "find_in_items [] = None"
| "find_in_items ((k, v) # rest) =
     (case v of
        JStr s \<Rightarrow> if startswith_http s then Some s else find_in_items rest
      | _ \<Rightarrow>
        (case find_first_url v of
           Some found \<Rightarrow> if found \<noteq> [] then Some found else find_in_items rest
         | None \<Rightarrow> find_in_items rest))"
| "find_in_list [] = None"
| "find_in_list (el # rest) =
     (case find_first_url el of
        Some found \<Rightarrow> if found \<noteq> [] then Some found else find_in_list rest
      | None \<Rightarrow> find_in_list rest)"

text \<open>The second strategy (lines 143 to 159): \<open>None\<close> when it falls through to the
  recursive search, otherwise what it returns or raises.\<close>

definition is_str :: "json \<Rightarrow> bool" where
  "is_str v = (case v of JStr s \<Rightarrow> True | _ \<Rightarrow> False)"

definition output_array :: "env \<Rightarrow> (string \<times> json) list \<Rightarrow> (exn + (bytes \<times> string) option) option" where
  "output_array env result_json =
     (let output = py_or (py_or (dict_get result_json ''output'') (dict_get result_json ''outputs''))
                     (dict_get result_json ''results'')
      in case output of
           JArr (item # others) \<Rightarrow>
             (case item of
                JObj it \<Rightarrow>
                  if truthy (dict_get it ''url'') then Some (fetch env (dict_get it ''url''))
                  else if truthy (dict_get it ''base64'') \<or> truthy (dict_get it ''b64'') then
                    Some (case b64decode (py_or (dict_get it ''base64'') (dict_get it ''b64'')) of
                            Inl e \<Rightarrow> Inl e
                          | Inr b \<Rightarrow> Inr (Some (b, ''image/png'')))
                  else if truthy (dict_get it ''image'') \<and> is_str (dict_get it ''image'') then
                    Some (case b64decode (dict_get it ''image'') of
                            Inl e \<Rightarrow> Inl e
                          | Inr b \<Rightarrow> Inr (Some (b, ''image/png'')))
                  else None
              | _ \<Rightarrow> None)
         | _ \<Rightarrow> None)"

text \<open>\<^verbatim>\<open>extract_image_bytes_from_result\<close>: \<open>Inr None\<close> is the pair
  \<^verbatim>\<open>(None, None)\<close>. \<^verbatim>\<open>.get\<close> on a result that is no dict raises.\<close>

definition extract_image_bytes_from_result :: "env \<Rightarrow> json \<Rightarrow> exn + (bytes \<times> string) option" where
  "extract_image_bytes_from_result env result_json =
     (case result_json of
        JObj kvs \<Rightarrow>
          if truthy (dict_get kvs ''url'') then fetch env (dict_get kvs ''url'')
          else
            (case output_array env kvs of
               Some r \<Rightarrow> r
             | None \<Rightarrow>
                 (case find_first_url result_json of
                    Some any_url \<Rightarrow>
                      if any_url \<noteq> [] then fetch env (JStr any_url) else Inr None
                  | None \<Rightarrow> Inr None))
      | _ \<Rightarrow> Inl AttributeError)"

section \<open>The request handlers\<close>

text \<open>
  A handler answers with a file or with \<^verbatim>\<open>jsonify(...)\<close> and a status code. The fields
  of the JSON body are texts, payloads, flags, or \<^verbatim>\<open>str(e)\<close> of an exception, kept as
  the exception itself.
\<close>

datatype field = Text string | Payload json | Raised exn | Flag bool

datatype response = SendFile bytes string | Jsonify nat "(string \<times> field) list"

text \<open>\<^verbatim>\<open>{"prompt": prompt, **options}\<close>: later keys replace earlier ones in place; unpacking
  something that is no dict raises \<^verbatim>\<open>TypeError\<close>.\<close>

definition input_payload :: "json \<Rightarrow> json \<Rightarrow> exn + json" where
  "input_payload prompt options =
     (case options of
        JObj opts \<Rightarrow> Inr (JObj (foldl (\<lambda>d (k, v). AList.update k v d) [(''prompt'', prompt)] opts))
      | _ \<Rightarrow> Inl TypeError)"

text \<open>\<^verbatim>\<open>start_async_inference\<close> without tags.\<close>

definition start_async_inference :: "env \<Rightarrow> json \<Rightarrow> json \<Rightarrow> exn + json" where
  "start_async_inference env model_id payload =
     (case post_invoke env (JObj [(''model_id'', model_id), (''input'', payload)]) of
        Inl t \<Rightarrow> Inl (Requests t)
      | Inr j \<Rightarrow> Inr j)"

text \<open>Line 213 (and 259):
  \<^verbatim>\<open>start_resp.get("request_id") or start_resp.get("id") or start_resp.get("requestId")\<close>.\<close>

definition request_id_of :: "json \<Rightarrow> exn + json" where
  "request_id_of start_resp =
     (case start_resp of
        JObj kvs \<Rightarrow>
          Inr (py_or (py_or (dict_get kvs ''request_id'') (dict_get kvs ''id''))
                 (dict_get kvs ''requestId''))
      | _ \<Rightarrow> Inl AttributeError)"

text \<open>
  Lines 209 to 224, which lines 257 to 268 repeat word for word: build the input, start
  the job, poll, extract. The outcome is an exception, a response returned early, or
  the image bytes with their content type.
\<close>

datatype progress = Raise exn | Return response | Image bytes string

definition after_poll :: "env \<Rightarrow> exn + json \<Rightarrow> progress" where
  "after_poll env polled =
     (case polled of
        Inl e \<Rightarrow> Raise e
      | Inr final_result \<Rightarrow>
          (case extract_image_bytes_from_result env final_result of
             Inl e \<Rightarrow> Raise e
           | Inr None \<Rightarrow>
               Return (Jsonify 500 [(''error'', Text ''No image found in inference result''),
                                    (''result'', Payload final_result)])
           | Inr (Some (img_bytes, content_type)) \<Rightarrow>
               if img_bytes = [] then
                 Return (Jsonify 500 [(''error'', Text ''No image found in inference result''),
                                      (''result'', Payload final_result)])
               else Image img_bytes content_type))"

definition inference_steps ::
  "nat \<Rightarrow> env \<Rightarrow> json \<Rightarrow> json \<Rightarrow> json \<Rightarrow> world \<Rightarrow> (progress \<times> world) option" where
  "inference_steps fuel env prompt model_id options w =
     (case input_payload prompt options of
        Inl e \<Rightarrow> Some (Raise e, w)
      | Inr payload \<Rightarrow>
          (case start_async_inference env model_id payload of
             Inl e \<Rightarrow> Some (Raise e, w)
           | Inr start_resp \<Rightarrow>
               (case request_id_of start_resp of
                  Inl e \<Rightarrow> Some (Raise e, w)
                | Inr request_id \<Rightarrow>
                    if \<not> truthy request_id then
                      Some (Return (Jsonify 500 [(''error'', Text ''Unexpected async-invoke response''),
                                                 (''response'', Payload start_resp)]), w)
                    else
                      map_option (\<lambda>(polled, w'). (after_poll env polled, w'))
                        (poll_until_complete fuel env request_id (poll_timeout env)
                           (poll_interval env) w))))"

text \<open>The \<^verbatim>\<open>except\<close> clauses of \<^verbatim>\<open>generate_image\<close> (lines 228 to 236) and of
  \<^verbatim>\<open>upload_image_to_spaces\<close> (lines 286 to 291).\<close>

definition generate_except :: "exn \<Rightarrow> response" where
  "generate_except e =
     (case e of
        TimeoutError t \<Rightarrow>
          Jsonify 504 [(''error'', Text ''Inference job timed out''), (''details'', Raised e)]
      | Requests (HTTPError m) \<Rightarrow>
          Jsonify 502 [(''error'', Text ''HTTP error during inference''), (''details'', Raised e)]
      | _ \<Rightarrow>
          Jsonify 500 [(''error'', Text ''Failed to generate image''), (''details'', Raised e)])"

definition upload_except :: "exn \<Rightarrow> response" where
  "upload_except e =
     (case e of
        TimeoutError t \<Rightarrow>
          Jsonify 504 [(''error'', Text ''Inference job timed out''), (''details'', Raised e)]
      | _ \<Rightarrow>
          Jsonify 500 [(''error'', Text ''Failed to generate or upload image''),
                       (''details'', Raised e)])"

text \<open>The part both handlers share before \<^verbatim>\<open>try\<close>: the configuration check, the
  request body and the prompt. \<^verbatim>\<open>.get\<close> on a body that is no dict raises outside the
  \<^verbatim>\<open>try\<close>, so the exception leaves the handler.\<close>

datatype request = Refuse response | Escape exn | Proceed json json json

definition read_request :: "env \<Rightarrow> json \<Rightarrow> request" where
  "read_request env body =
     (if \<not> access_key env then
        Refuse (Jsonify 500 [(''error'', Text ''Server not configured with DO_MODEL_ACCESS_KEY'')])
      else
        (case py_or body (JObj []) of
           JObj data \<Rightarrow>
             (let prompt = dict_get data ''prompt'';
                  model_id = dict_get_default data ''model_id'' (JStr ''fal-ai/flux/schnell'');
                  options = py_or (dict_get_default data ''options'' (JObj [])) (JObj [])
              in if \<not> truthy prompt then
                   Refuse (Jsonify 400 [(''error'', Text ''Prompt is required'')])
                 else Proceed prompt model_id options)
         | _ \<Rightarrow> Escape AttributeError))"

text \<open>How \<^verbatim>\<open>generate_image\<close> ends: the \<^verbatim>\<open>except\<close> clause for what was raised, the
  response returned early, or \<^verbatim>\<open>send_file\<close> with
  \<^verbatim>\<open>mimetype=content_type or "image/png"\<close>.\<close>

definition generate_respond :: "progress \<Rightarrow> response" where
  "generate_respond p =
     (case p of
        Raise e \<Rightarrow> generate_except e
      | Return r \<Rightarrow> r
      | Image img_bytes content_type \<Rightarrow>
          SendFile img_bytes (if content_type = [] then ''image/png'' else content_type))"

definition generate_image ::
  "nat \<Rightarrow> env \<Rightarrow> json \<Rightarrow> world \<Rightarrow> ((exn + response) \<times> world) option" where
  "generate_image fuel env body w =
     (case read_request env body of
        Refuse r \<Rightarrow> Some (Inr r, w)
      | Escape e \<Rightarrow> Some (Inl e, w)
      | Proceed prompt model_id options \<Rightarrow>
          map_option (\<lambda>(p, w'). (Inr (generate_respond p), w'))
            (inference_steps fuel env prompt model_id options w))"

text \<open>Lines 270 to 285: the file name (built from the prompt, the time and a fresh
  identifier; \<open>make_filename\<close> stands for these lines) and the upload.\<close>

definition store_image :: "env \<Rightarrow> json \<Rightarrow> bytes \<Rightarrow> exn + response" where
  "store_image env prompt img_bytes =
     (case make_filename env prompt of
        Inl e \<Rightarrow> Inl e
      | Inr filename \<Rightarrow>
          (case put_object env img_bytes filename of
             Some upload_url \<Rightarrow>
               if upload_url \<noteq> [] then
                 Inr (Jsonify 200 [(''success'', Flag True),
                        (''message'', Text ''Image uploaded successfully to DigitalOcean Spaces''),
                        (''url'', Text upload_url), (''filename'', Text filename)])
               else
                 Inr (Jsonify 500 [(''success'', Flag False),
                        (''error'', Text ''Failed to upload image to DigitalOcean Spaces'')])
           | None \<Rightarrow>
               Inr (Jsonify 500 [(''success'', Flag False),
                      (''error'', Text ''Failed to upload image to DigitalOcean Spaces'')])))"

definition upload_respond :: "env \<Rightarrow> json \<Rightarrow> progress \<Rightarrow> response" where
  "upload_respond env prompt p =
     (case p of
        Raise e \<Rightarrow> upload_except e
      | Return r \<Rightarrow> r
      | Image img_bytes content_type \<Rightarrow>
          (case store_image env prompt img_bytes of
             Inl e \<Rightarrow> upload_except e
           | Inr r \<Rightarrow> r))"

definition upload_image_to_spaces ::
  "nat \<Rightarrow> env \<Rightarrow> json \<Rightarrow> world \<Rightarrow> ((exn + response) \<times> world) option" where
  "upload_image_to_spaces fuel env body w =
     (case read_request env body of
        Refuse r \<Rightarrow> Some (Inr r, w)
      | Escape e \<Rightarrow> Some (Inl e, w)
      | Proceed prompt model_id options \<Rightarrow>
          map_option (\<lambda>(p, w'). (Inr (upload_respond env prompt p), w'))
            (inference_steps fuel env prompt model_id options w))"

text \<open>What a client sees first of a response: the status code and the \<^verbatim>\<open>error\<close> text.\<close>

definition response_kind :: "response \<Rightarrow> nat \<times> string" where
  "response_kind r =
     (case r of
        SendFile b m \<Rightarrow> (200, [])
      | Jsonify code body \<Rightarrow>
          (code, (case map_of body ''error'' of Some (Text t) \<Rightarrow> t | _ \<Rightarrow> [])))"

text \<open>The same of a whole run of a handler.\<close>

definition run_kind :: "((exn + response) \<times> world) option \<Rightarrow> (nat \<times> string) option" where
  "run_kind run =
     (case run of
        Some (Inr r, w) \<Rightarrow> Some (response_kind r)
      | _ \<Rightarrow> None)"

section \<open>Notions of the specification\<close>

text \<open>The members of the error taxonomy that a run of the shared steps can end in, and
  the member that an outcome of those steps belongs to.\<close>

datatype failure =
    PollTimeoutError
  | JobFailedError
  | TransportError
  | NoImageFoundError
  | MalformedResponseError

definition failure_of :: "progress \<Rightarrow> failure option" where
  "failure_of p =
     (case p of
        Raise (TimeoutError t) \<Rightarrow> Some PollTimeoutError
      | Raise (RuntimeError j) \<Rightarrow> Some JobFailedError
      | Raise (Requests t) \<Rightarrow> Some TransportError
      | Raise e \<Rightarrow> None
      | Return (Jsonify code body) \<Rightarrow>
          (if map_of body ''error'' = Some (Text ''No image found in inference result'')
             then Some NoImageFoundError
           else if map_of body ''error'' = Some (Text ''Unexpected async-invoke response'')
             then Some MalformedResponseError
           else None)
      | Return r \<Rightarrow> None
      | Image b c \<Rightarrow> None)"

definition run_failure :: "(progress \<times> world) option \<Rightarrow> failure option" where
  "run_failure run = (case run of Some (p, w) \<Rightarrow> failure_of p | None \<Rightarrow> None)"



text \<open>A word written in any letter case: \<open>any_case s word\<close> holds when \<open>s\<close> is the
  upper-case \<open>word\<close> with each letter either kept or replaced by its lower-case form
  (32 code points further on).\<close>

definition case_variant_char :: "char \<Rightarrow> char \<Rightarrow> bool" where
  "case_variant_char c d = (c = d \<or> (of_char c :: nat) = of_char d + 32)"

definition any_case :: "string \<Rightarrow> string \<Rightarrow> bool" where
  "any_case s word = list_all2 case_variant_char s word"

text \<open>A string with its special characters spelled out: each of the ten characters whose
  upper case is ASCII text is replaced by that text (SS for the sharp s, S for the long
  s, I for the dotless i, the letters of a ligature for the ligature); everything else
  stays.\<close>

definition special_spellings :: "(string \<times> string) list" where
  "special_spellings = map utf8_entry special_uppers"

fun fold_specials :: "string \<Rightarrow> string" where
  "fold_specials [] = []"
| "fold_specials (c # cs) =
     (let ch = c # take (utf8_len c - 1) cs
      in (case map_of special_spellings ch of Some e \<Rightarrow> e | None \<Rightarrow> ch))
     @ fold_specials (drop (utf8_len c - 1) cs)"

text \<open>A string of ASCII characters only.\<close>

definition ascii_text :: "string \<Rightarrow> bool" where
  "ascii_text s = list_all (\<lambda>c. (of_char c :: nat) < 128) s"

text \<open>An entry of the upper-case table whose upper case has a character beyond ASCII.\<close>

definition beyond_ascii :: "nat \<times> nat list \<Rightarrow> bool" where
  "beyond_ascii e = list_ex (\<lambda>d. 128 \<le> d \<and> d < 1114112) (snd e)"

text \<open>A reply of the status endpoint that is well formed and names no terminal state.\<close>

definition pending_reply :: "transport + json \<Rightarrow> bool" where
  "pending_reply r =
     (case r of
        Inr j \<Rightarrow> (case status_val j of Inr sv \<Rightarrow> classify sv = Pending | Inl e \<Rightarrow> False)
      | Inl t \<Rightarrow> False)"

text \<open>The effects of \<open>n\<close> passes of the loop that all see a status that is not
  terminal, the last of which finds the deadline passed: a status request and a timeout
  check in each pass, and a sleep between two passes.\<close>

fun pending_passes :: "json \<Rightarrow> rat \<Rightarrow> nat \<Rightarrow> event list" where
  "pending_passes rid i 0 = []"
| "pending_passes rid i (Suc 0) = [GetStatus rid, CheckTimeout]"
| "pending_passes rid i (Suc (Suc m)) =
     [GetStatus rid, CheckTimeout, Sleep i] @ pending_passes rid i (Suc m)"

text \<open>In a trace, every timeout check comes directly after a status request.\<close>

fun is_status_event :: "event option \<Rightarrow> bool" where
  "is_status_event (Some (GetStatus rid)) = True"
| "is_status_event e = False"

fun checks_after_status :: "event option \<Rightarrow> event list \<Rightarrow> bool" where
  "checks_after_status prev [] = True"
| "checks_after_status prev (e # es) =
     ((if e = CheckTimeout then is_status_event prev else True) \<and> checks_after_status (Some e) es)"

text \<open>A word made of the upper-case letters A to Z only.\<close>

definition upper_letters :: "string \<Rightarrow> bool" where
  "upper_letters word = list_all (\<lambda>d. 65 \<le> (of_char d :: nat) \<and> (of_char d :: nat) \<le> 90) word"

text \<open>Every string of a JSON tree that begins with \<^verbatim>\<open>http\<close>, depth first: values of
  mappings in key order, elements of sequences in index order.\<close>

fun http_strings :: "json \<Rightarrow> string list"
  and http_strings_items :: "(string \<times> json) list \<Rightarrow> string list"
  and http_strings_list :: "json list \<Rightarrow> string list" where
  "http_strings (JStr s) = (if startswith_http s then [s] else [])"
| "http_strings (JObj kvs) = http_strings_items kvs"
| "http_strings (JArr xs) = http_strings_list xs"
| "http_strings JNull = []"
| "http_strings (JBool b) = []"
| "http_strings (JNum n) = []"
| "http_strings_items [] = []"
| "http_strings_items ((k, v) # rest) = http_strings v @ http_strings_items rest"
| "http_strings_list [] = []"
| "http_strings_list (el # rest) = http_strings el @ http_strings_list rest"

text \<open>The same, leaving out the strings that are direct elements of a sequence: the
  strings beginning with \<^verbatim>\<open>http\<close> that are values of a mapping, depth first.\<close>

fun mapping_http_strings :: "json \<Rightarrow> string list"
  and mapping_http_strings_items :: "(string \<times> json) list \<Rightarrow> string list"
  and mapping_http_strings_list :: "json list \<Rightarrow> string list" where
  "mapping_http_strings (JObj kvs) = mapping_http_strings_items kvs"
| "mapping_http_strings (JArr xs) = mapping_http_strings_list xs"
| "mapping_http_strings JNull = []"
| "mapping_http_strings (JBool b) = []"
| "mapping_http_strings (JNum n) = []"
| "mapping_http_strings (JStr s) = []"
| "mapping_http_strings_items [] = []"
| "mapping_http_strings_items ((k, v) # rest) =
     (case v of
        JStr s \<Rightarrow> (if startswith_http s then [s] else [])
      | _ \<Rightarrow> mapping_http_strings v) @ mapping_http_strings_items rest"
| "mapping_http_strings_list [] = []"
| "mapping_http_strings_list (el # rest) = mapping_http_strings el @ mapping_http_strings_list rest"

text \<open>The first element of a list, if there is one.\<close>

definition first_of :: "'a list \<Rightarrow> 'a option" where
  "first_of xs = (case xs of [] \<Rightarrow> None | x # rest \<Rightarrow> Some x)"

text \<open>The standard base64 encoding (RFC 4648, with padding) of a byte string.\<close>

definition b64_char :: "nat \<Rightarrow> char" where
  "b64_char v =
     (if v < 26 then char_of (v + 65)
      else if v < 52 then char_of (v + 71)
      else if v < 62 then char_of (v - 4)
      else if v = 62 then CHR ''+''
      else CHR ''/'')"

fun b64encode :: "bytes \<Rightarrow> string" where
  "b64encode [] = []"
| "b64encode [x] =
     (let a = (of_char x :: nat)
      in [b64_char (a div 4), b64_char ((a mod 4) * 16), CHR ''='', CHR ''=''])"
| "b64encode [x, y] =
     (let a = (of_char x :: nat); b = (of_char y :: nat)
      in [b64_char (a div 4), b64_char ((a mod 4) * 16 + b div 16),
          b64_char ((b mod 16) * 4), CHR ''=''])"
| "b64encode (x # y # z # rest) =
     (let a = (of_char x :: nat); b = (of_char y :: nat); c = (of_char z :: nat)
      in [b64_char (a div 4), b64_char ((a mod 4) * 16 + b div 16),
          b64_char ((b mod 16) * 4 + c div 64), b64_char (c mod 64)] @ b64encode rest)"

text \<open>A value of \<^verbatim>\<open>output\<close>, \<^verbatim>\<open>outputs\<close> or \<^verbatim>\<open>results\<close> that the second strategy can
  use: a non-empty sequence whose first element is a mapping with a \<^verbatim>\<open>url\<close>, a
  \<^verbatim>\<open>base64\<close>, a \<^verbatim>\<open>b64\<close> or a string \<^verbatim>\<open>image\<close>.\<close>

definition usable_output :: "json \<Rightarrow> bool" where
  "usable_output out =
     (case out of
        JArr (JObj it # others) \<Rightarrow>
          truthy (dict_get it ''url'') \<or> truthy (dict_get it ''base64'') \<or>
          truthy (dict_get it ''b64'') \<or>
          (truthy (dict_get it ''image'') \<and> is_str (dict_get it ''image''))
      | _ \<Rightarrow> False)"

section \<open>Example services\<close>

text \<open>A service whose status endpoint always answers \<open>reply\<close> after \<open>d\<close> seconds and
  whose result endpoint answers \<open>res\<close>.\<close>

definition fixed_env :: "json \<Rightarrow> rat \<Rightarrow> json \<Rightarrow> env" where
  "fixed_env reply d res =
     \<lparr> access_key = True, poll_timeout = 60, poll_interval = 2,
       post_invoke = (\<lambda>body. Inr (JObj [(''request_id'', JStr ''job'')])),
       get_status = (\<lambda>rid k. Inr reply),
       status_time = (\<lambda>k. d),
       get_result = (\<lambda>rid. Inr res),
       get_url = (\<lambda>u. Inr (''img'', None)),
       make_filename = (\<lambda>p. Inr ''generated_images/x.png''),
       put_object = (\<lambda>b f. Some ''https://bucket/x.png'') \<rparr>"

text \<open>The same service with a chosen answer to the submit request.\<close>

definition submit_env :: "json \<Rightarrow> env" where
  "submit_env start_resp =
     (fixed_env (JObj [(''status'', JStr ''COMPLETE'')]) 0 (JObj [(''url'', JStr ''http://x/img.png'')]))
       \<lparr> post_invoke := (\<lambda>body. Inr start_resp) \<rparr>"

text \<open>A service whose status endpoint always fails with \<open>t\<close>.\<close>

definition broken_status_env :: "transport \<Rightarrow> env" where
  "broken_status_env t =
     (fixed_env JNull 0 JNull) \<lparr> get_status := (\<lambda>rid k. Inl t) \<rparr>"

definition w0 :: world where
  "w0 = \<lparr> now = 0, polls = 0, trace = [] \<rparr>"

section \<open>Properties of the poller\<close>

lemma other_uppers_0_ok: "list_all beyond_ascii other_uppers_0"
  by (simp add: other_uppers_0_def beyond_ascii_def)

lemma other_uppers_1_ok: "list_all beyond_ascii other_uppers_1"
  by (simp add: other_uppers_1_def beyond_ascii_def)

lemma other_uppers_2_ok: "list_all beyond_ascii other_uppers_2"
  by (simp add: other_uppers_2_def beyond_ascii_def)

lemma other_uppers_3_ok: "list_all beyond_ascii other_uppers_3"
  by (simp add: other_uppers_3_def beyond_ascii_def)

lemma other_uppers_4_ok: "list_all beyond_ascii other_uppers_4"
  by (simp add: other_uppers_4_def beyond_ascii_def)

lemma other_uppers_5_ok: "list_all beyond_ascii other_uppers_5"
  by (simp add: other_uppers_5_def beyond_ascii_def)

lemma other_uppers_6_ok: "list_all beyond_ascii other_uppers_6"
  by (simp add: other_uppers_6_def beyond_ascii_def)

lemma other_uppers_7_ok: "list_all beyond_ascii other_uppers_7"
  by (simp add: other_uppers_7_def beyond_ascii_def)

lemma other_uppers_8_ok: "list_all beyond_ascii other_uppers_8"
  by (simp add: other_uppers_8_def beyond_ascii_def)

lemma other_uppers_9_ok: "list_all beyond_ascii other_uppers_9"
  by (simp add: other_uppers_9_def beyond_ascii_def)

lemma other_uppers_10_ok: "list_all beyond_ascii other_uppers_10"
  by (simp add: other_uppers_10_def beyond_ascii_def)

lemma other_uppers_11_ok: "list_all beyond_ascii other_uppers_11"
  by (simp add: other_uppers_11_def beyond_ascii_def)

lemma other_uppers_12_ok: "list_all beyond_ascii other_uppers_12"
  by (simp add: other_uppers_12_def beyond_ascii_def)

lemma other_uppers_13_ok: "list_all beyond_ascii other_uppers_13"
  by (simp add: other_uppers_13_def beyond_ascii_def)

lemma other_uppers_14_ok: "list_all beyond_ascii other_uppers_14"
  by (simp add: other_uppers_14_def beyond_ascii_def)

lemma other_uppers_ok: "list_all beyond_ascii other_uppers"
  by (simp add: other_uppers_def other_uppers_0_ok other_uppers_1_ok other_uppers_2_ok other_uppers_3_ok other_uppers_4_ok other_uppers_5_ok other_uppers_6_ok other_uppers_7_ok other_uppers_8_ok other_uppers_9_ok other_uppers_10_ok other_uppers_11_ok other_uppers_12_ok other_uppers_13_ok other_uppers_14_ok)

lemma ascii_upper_eq:
  assumes "65 \<le> (of_char d :: nat)" "(of_char d :: nat) \<le> 90"
  shows "ascii_upper c = d \<longleftrightarrow> case_variant_char c d"
proof
  assume h: "ascii_upper c = d"
  show "case_variant_char c d"
  proof (cases "97 \<le> (of_char c :: nat) \<and> (of_char c :: nat) \<le> 122")
    case True
    then have "d = char_of ((of_char c :: nat) - 32)" using h by (simp add: ascii_upper_def Let_def)
    then have "(of_char d :: nat) = ((of_char c :: nat) - 32) mod 256" by simp
    moreover have "((of_char c :: nat) - 32) mod 256 = of_char c - 32"
      using True by (intro mod_less) linarith
    ultimately show ?thesis using True by (simp add: case_variant_char_def)
  next
    case False
    then show ?thesis using h by (auto simp add: ascii_upper_def Let_def case_variant_char_def)
  qed
next
  assume "case_variant_char c d"
  then consider "c = d" | "(of_char c :: nat) = of_char d + 32" by (auto simp: case_variant_char_def)
  then show "ascii_upper c = d"
  proof cases
    case 1
    then show ?thesis using assms by (simp add: ascii_upper_def Let_def)
  next
    case 2
    then have "char_of ((of_char c :: nat) - 32) = d" by simp
    with 2 assms show ?thesis by (simp add: ascii_upper_def Let_def)
  qed
qed

lemma upper_char_single: "upper_char [c] = [ascii_upper c]"
  by (simp add: upper_char_def)

lemma utf8_len_ascii: "(of_char c :: nat) < 128 \<Longrightarrow> utf8_len c = 1"
  by (simp add: utf8_len_def)

lemma upper_code [code]:
  "upper [] = []"
  "upper (c # cs) =
     (if (of_char c :: nat) < 128 then ascii_upper c # upper cs
      else upper_char (c # take (utf8_len c - 1) cs) @ upper (drop (utf8_len c - 1) cs))"
  by (simp_all add: utf8_len_ascii upper_char_single)

lemma special_spellings_eval:
  "special_spellings =
     [([CHR 0xC3, CHR 0x9F], ''SS''), ([CHR 0xC4, CHR 0xB1], ''I''), ([CHR 0xC5, CHR 0xBF], ''S''),
      ([CHR 0xEF, CHR 0xAC, CHR 0x80], ''FF''), ([CHR 0xEF, CHR 0xAC, CHR 0x81], ''FI''),
      ([CHR 0xEF, CHR 0xAC, CHR 0x82], ''FL''), ([CHR 0xEF, CHR 0xAC, CHR 0x83], ''FFI''),
      ([CHR 0xEF, CHR 0xAC, CHR 0x84], ''FFL''), ([CHR 0xEF, CHR 0xAC, CHR 0x85], ''ST''),
      ([CHR 0xEF, CHR 0xAC, CHR 0x86], ''ST'')]"
  by (simp add: special_spellings_def special_uppers_def utf8_entry_def utf8_encode_def char_of_def bit_0)

lemma special_spelling_facts:
  assumes "map_of special_spellings ch = Some e"
  shows "upper_letters e" "2 \<le> length ch" "e \<noteq> []"
proof -
  from assms have "(ch, e) \<in> set special_spellings" by (rule map_of_SomeD)
  then have "upper_letters e \<and> 2 \<le> length ch \<and> e \<noteq> []"
    unfolding special_spellings_eval upper_letters_def by (elim set_ConsD [elim_format]) auto
  then show "upper_letters e" "2 \<le> length ch" "e \<noteq> []" by simp_all
qed

lemma special_single: "map_of special_spellings [c] = None"
  by (simp add: special_spellings_eval)

lemma upper_char_special:
  assumes "map_of special_spellings ch = Some e"
  shows "upper_char ch = e"
proof -
  have "2 \<le> length ch" using assms by (rule special_spelling_facts)
  then obtain a b t where ch: "ch = a # b # t" by (cases ch; cases "tl ch") auto
  have "map_of upper_table ch = Some e"
    using assms by (simp add: upper_table_def special_spellings_def)
  then show ?thesis by (simp add: upper_char_def ch)
qed

lemma other_uppers_beyond: "e \<in> set other_uppers \<Longrightarrow> beyond_ascii e"
  using other_uppers_ok by (simp add: list_all_iff)

lemma utf8_encode_high:
  assumes "128 \<le> d" "d < 1114112"
  shows "\<exists>b \<in> set (utf8_encode d). 128 \<le> (of_char b :: nat)"
proof -
  have "d div 64 < 32" if "d < 2048" using that by simp
  moreover have "d div 4096 < 16" if "d < 65536" using that by simp
  moreover have "d div 262144 < 16" using assms(2) by simp
  ultimately show ?thesis using assms(1)
    by (auto simp: utf8_encode_def)
qed

lemma upper_char_miss:
  assumes "128 \<le> (of_char c :: nat)" "map_of special_spellings (c # t) = None"
  shows "\<exists>b \<in> set (upper_char (c # t)). 128 \<le> (of_char b :: nat)"
proof (cases "map_of upper_table (c # t)")
  case None
  then show ?thesis using assms(1)
    by (cases t) (auto simp: upper_char_def ascii_upper_def)
next
  case (Some u)
  show ?thesis
  proof (cases t)
    case Nil
    then show ?thesis using assms(1) by (auto simp: upper_char_def ascii_upper_def)
  next
    case (Cons a t')
    from Some assms(2) have "map_of (map utf8_entry other_uppers) (c # t) = Some u"
      by (simp add: upper_table_def special_spellings_def map_add_Some_iff)
    then have "(c # t, u) \<in> set (map utf8_entry other_uppers)" by (rule map_of_SomeD)
    then obtain e where e: "e \<in> set other_uppers" "u = concat (map utf8_encode (snd e))"
      by (auto simp: utf8_entry_def)
    from other_uppers_beyond[OF e(1)] obtain d where
      d: "d \<in> set (snd e)" "128 \<le> d" "d < 1114112"
      by (auto simp: beyond_ascii_def list_ex_iff)
    from utf8_encode_high[OF d(2,3)] obtain b where "b \<in> set (utf8_encode d)" "128 \<le> (of_char b :: nat)"
      by blast
    with d(1) e(2) have "\<exists>b \<in> set u. 128 \<le> (of_char b :: nat)" by auto
    with Some Cons show ?thesis by (simp add: upper_char_def)
  qed
qed


lemma upper_letters_ascii:
  "upper_letters word \<Longrightarrow> b \<in> set word \<Longrightarrow> (of_char b :: nat) < 128"
  by (auto simp: upper_letters_def list_all_iff)

lemma any_case_upper_letters:
  "upper_letters e \<Longrightarrow> upper_letters w \<Longrightarrow> any_case e w \<longleftrightarrow> e = w"
proof (induction e arbitrary: w)
  case Nil
  then show ?case by (auto simp: any_case_def)
next
  case (Cons a e)
  show ?case
  proof (cases w)
    case Nil
    then show ?thesis by (simp add: any_case_def)
  next
    case (Cons b w')
    with Cons.prems have a: "(of_char a :: nat) \<le> 90" and b: "65 \<le> (of_char b :: nat)"
      and e: "upper_letters e" and w: "upper_letters w'"
      by (simp_all add: upper_letters_def)
    have "case_variant_char a b \<longleftrightarrow> a = b" using a b by (auto simp: case_variant_char_def)
    with Cons.IH[OF e w] Cons show ?thesis by (simp add: any_case_def)
  qed
qed

lemma any_case_high:
  assumes "128 \<le> (of_char c :: nat)" "upper_letters word"
  shows "\<not> any_case (c # t) word"
proof (cases word)
  case Nil
  then show ?thesis by (simp add: any_case_def)
next
  case (Cons d ds)
  with assms(2) have "(of_char d :: nat) \<le> 90" by (simp add: upper_letters_def)
  with assms(1) have "\<not> case_variant_char c d" by (auto simp: case_variant_char_def)
  with Cons show ?thesis by (simp add: any_case_def)
qed

lemma any_case_append:
  assumes "upper_letters e" "upper_letters word"
  shows "any_case (e @ t) word \<longleftrightarrow>
         take (length e) word = e \<and> any_case t (drop (length e) word)"
proof
  assume "any_case (e @ t) word"
  then obtain us vs where uv: "word = us @ vs" "length us = length e" "any_case e us" "any_case t vs"
    by (auto simp: any_case_def list_all2_append1)
  from assms(2) uv(1) have "upper_letters us" by (simp add: upper_letters_def)
  with assms(1) uv(3) have "e = us" by (simp add: any_case_upper_letters)
  with uv show "take (length e) word = e \<and> any_case t (drop (length e) word)" by simp
next
  assume h: "take (length e) word = e \<and> any_case t (drop (length e) word)"
  then have w: "word = e @ drop (length e) word" by (metis append_take_drop_id)
  have "any_case e e" using assms(1) by (simp add: any_case_upper_letters)
  with h have "any_case (e @ t) (e @ drop (length e) word)"
    by (simp add: any_case_def list_all2_appendI)
  with w show "any_case (e @ t) word" by simp
qed

lemma upper_letters_drop: "upper_letters word \<Longrightarrow> upper_letters (drop n word)"
  by (auto simp: upper_letters_def list_all_iff dest: in_set_dropD)

lemma upper_eq_spelling:
  "upper_letters word \<Longrightarrow> upper s = word \<longleftrightarrow> any_case (fold_specials s) word"
proof (induction s arbitrary: word rule: upper.induct)
  case 1
  then show ?case by (auto simp: any_case_def)
next
  case (2 c cs)
  let ?k = "utf8_len c - 1"
  let ?ch = "c # take ?k cs"
  let ?rest = "drop ?k cs"
  show ?case
  proof (cases "(of_char c :: nat) < 128")
    case True
    then have k: "?k = 0" by (simp add: utf8_len_ascii)
    have up: "upper (c # cs) = ascii_upper c # upper cs" using k by (simp add: upper_char_single)
    have fo: "fold_specials (c # cs) = c # fold_specials cs"
      using k by (simp add: special_single)
    show ?thesis
    proof (cases word)
      case Nil
      then show ?thesis using up fo by (simp add: any_case_def)
    next
      case (Cons d ds)
      with "2.prems" have d: "65 \<le> (of_char d :: nat)" "(of_char d :: nat) \<le> 90"
        and ds: "upper_letters ds" by (simp_all add: upper_letters_def)
      have "upper cs = ds \<longleftrightarrow> any_case (fold_specials cs) ds"
        using "2.IH"[OF ds] k by simp
      with ascii_upper_eq[OF d, of c] Cons up fo show ?thesis by (simp add: any_case_def)
    qed
  next
    case False
    then have hi: "128 \<le> (of_char c :: nat)" by simp
    show ?thesis
    proof (cases "map_of special_spellings ?ch")
      case (Some e)
      note e = special_spelling_facts[OF Some]
      have up: "upper (c # cs) = e @ upper ?rest" using upper_char_special[OF Some] by simp
      have fo: "fold_specials (c # cs) = e @ fold_specials ?rest" using Some by (simp add: Let_def)
      have ih: "upper ?rest = drop (length e) word \<longleftrightarrow>
                any_case (fold_specials ?rest) (drop (length e) word)"
        using "2.IH"[OF upper_letters_drop[OF "2.prems"]] by simp
      have "e @ upper ?rest = word \<longleftrightarrow> take (length e) word = e \<and> upper ?rest = drop (length e) word"
        by (auto simp: append_eq_conv_conj)
      with ih any_case_append[OF e(1) "2.prems", of "fold_specials ?rest"] up fo
      show ?thesis by simp
    next
      case None
      from upper_char_miss[OF hi None] obtain b where
        b: "b \<in> set (upper_char ?ch)" "128 \<le> (of_char b :: nat)" by blast
      then have "b \<in> set (upper (c # cs))" by simp
      with b(2) upper_letters_ascii[OF "2.prems", of b] have "upper (c # cs) \<noteq> word" by auto
      moreover have "fold_specials (c # cs) = c # (take ?k cs @ fold_specials ?rest)"
        using None by (simp add: Let_def)
      then have "\<not> any_case (fold_specials (c # cs)) word"
        using any_case_high[OF hi "2.prems"] by simp
      ultimately show ?thesis by simp
    qed
  qed
qed

lemma fold_specials_ascii: "ascii_text s \<Longrightarrow> fold_specials s = s"
proof (induction s)
  case Nil
  then show ?case by simp
next
  case (Cons c cs)
  then have "utf8_len c - 1 = 0" by (simp add: ascii_text_def utf8_len_ascii)
  with Cons show ?case by (simp add: special_single ascii_text_def)
qed

lemma upper_sharp_s:
  "upper (''succe'' @ [CHR 0xC3, CHR 0x9F]) = ''SUCCESS''"
proof -
  have ul: "upper_letters ''SUCCESS''" by (simp add: upper_letters_def)
  have f: "fold_specials (''succe'' @ [CHR 0xC3, CHR 0x9F]) = ''succeSS''"
    by (simp add: utf8_len_def special_spellings_eval)
  have a: "any_case ''succeSS'' ''SUCCESS''"
    by (simp add: any_case_def case_variant_char_def)
  have "any_case (fold_specials (''succe'' @ [CHR 0xC3, CHR 0x9F])) ''SUCCESS''"
    unfolding f by (rule a)
  then show ?thesis using upper_eq_spelling[OF ul] by blast
qed

lemma upper_dotless_i:
  "upper (''fa'' @ [CHR 0xC4, CHR 0xB1] @ ''led'') = ''FAILED''"
proof -
  have ul: "upper_letters ''FAILED''" by (simp add: upper_letters_def)
  have f: "fold_specials (''fa'' @ [CHR 0xC4, CHR 0xB1] @ ''led'') = ''faIled''"
    by (simp add: utf8_len_def special_spellings_eval)
  have a: "any_case ''faIled'' ''FAILED''"
    by (simp add: any_case_def case_variant_char_def)
  have "any_case (fold_specials (''fa'' @ [CHR 0xC4, CHR 0xB1] @ ''led'')) ''FAILED''"
    unfolding f by (rule a)
  then show ?thesis using upper_eq_spelling[OF ul] by blast
qed

lemma classify_spelling:
  "classify (upper s) =
     (if any_case (fold_specials s) ''COMPLETE'' \<or> any_case (fold_specials s) ''SUCCEEDED'' \<or>
         any_case (fold_specials s) ''SUCCESS'' then Complete
      else if any_case (fold_specials s) ''FAILED'' \<or> any_case (fold_specials s) ''ERROR''
        then Failed
      else Pending)"
proof -
  have "upper s = ''COMPLETE'' \<longleftrightarrow> any_case (fold_specials s) ''COMPLETE''"
       "upper s = ''SUCCEEDED'' \<longleftrightarrow> any_case (fold_specials s) ''SUCCEEDED''"
       "upper s = ''SUCCESS'' \<longleftrightarrow> any_case (fold_specials s) ''SUCCESS''"
       "upper s = ''FAILED'' \<longleftrightarrow> any_case (fold_specials s) ''FAILED''"
       "upper s = ''ERROR'' \<longleftrightarrow> any_case (fold_specials s) ''ERROR''"
    by (rule upper_eq_spelling, simp add: upper_letters_def)+
  then show ?thesis
    by (simp add: classify_def success_words_def failure_words_def)
qed

lemma log_event_simps [simp]:
  "now (log_event e w) = now w" "polls (log_event e w) = polls w"
  "trace (log_event e w) = trace w @ [e]"
  by (simp_all add: log_event_def)

lemma get_job_status_world:
  "get_job_status env rid w = (r, w1) \<Longrightarrow>
     now w1 = now w + status_time env (polls w) \<and> polls w1 = Suc (polls w) \<and>
     trace w1 = trace w @ [GetStatus rid]"
  by (auto simp: get_job_status_def Let_def split: sum.splits)

lemma get_job_status_reply:
  "fst (get_job_status env rid w) =
     (case get_status env rid (polls w) of Inl t \<Rightarrow> Inl (Requests t) | Inr j \<Rightarrow> Inr j)"
  by (auto simp: get_job_status_def Let_def split: sum.splits)

lemma get_job_result_world:
  "get_job_result env rid w = (r, w2) \<Longrightarrow>
     now w2 = now w \<and> polls w2 = polls w \<and> trace w2 = trace w @ [GetResult rid] \<and>
     r = (case get_result env rid of Inl t \<Rightarrow> Inl (Requests t) | Inr j \<Rightarrow> Inr j)"
  by (auto simp: get_job_result_def Let_def split: sum.splits)

lemma checks_after_status_append:
  "checks_after_status prev a \<Longrightarrow> (\<And>p. checks_after_status p b) \<Longrightarrow>
     checks_after_status prev (a @ b)"
  by (induction a arbitrary: prev) auto

lemma poll_pass_trace:
  assumes "poll_pass env rid T i st w = Leave r w' \<or> poll_pass env rid T i st w = Again w'"
  shows "\<exists>t. trace w' = trace w @ t \<and> (\<forall>p. checks_after_status p t)"
proof -
  obtain r1 w1 where g: "get_job_status env rid w = (r1, w1)" by (cases "get_job_status env rid w")
  note w1 = get_job_status_world[OF g]
  from assms g w1 show ?thesis
    by (auto simp: poll_pass_def Let_def split: sum.splits job_status.splits prod.splits if_splits
             dest!: get_job_result_world)
qed

lemma poll_loop_trace:
  "poll_loop n env rid T i st w = Some (r, w') \<Longrightarrow>
     \<exists>t. trace w' = trace w @ t \<and> (\<forall>p. checks_after_status p t)"
proof (induction n arbitrary: w)
  case 0
  then show ?case by simp
next
  case (Suc n)
  show ?case
  proof (cases "poll_pass env rid T i st w")
    case (Leave r1 w1)
    with Suc.prems have "r1 = r" "w1 = w'" by simp_all
    with Leave poll_pass_trace[of env rid T i st w r w'] show ?thesis by simp
  next
    case (Again w1)
    with Suc.prems have "poll_loop n env rid T i st w1 = Some (r, w')" by simp
    from Suc.IH[OF this] obtain t2 where t2: "trace w' = trace w1 @ t2" "\<forall>p. checks_after_status p t2"
      by blast
    from Again poll_pass_trace[of env rid T i st w _ w1] obtain t1
      where t1: "trace w1 = trace w @ t1" "\<forall>p. checks_after_status p t1" by blast
    have "\<forall>p. checks_after_status p (t1 @ t2)"
      using t1(2) t2(2) by (simp add: checks_after_status_append)
    with t1(1) t2(1) show ?thesis by simp
  qed
qed

lemma poll_pass_pending:
  assumes "pending_reply (get_status env rid (polls w))"
  shows "poll_pass env rid T i st w =
     (let w2 = log_event CheckTimeout (log_event (GetStatus rid)
                 (w\<lparr>now := now w + status_time env (polls w), polls := Suc (polls w)\<rparr>)) in
      if now w2 - st > of_int T then Leave (Inl (TimeoutError T)) w2
      else if i < 0 then Leave (Inl ValueError) w2
      else Again (log_event (Sleep i) (w2\<lparr>now := now w2 + i\<rparr>)))"
  using assms
  by (auto simp: poll_pass_def pending_reply_def get_job_status_def Let_def split: sum.splits)

lemma poll_loop_times_out:
  assumes pend: "\<And>k. pending_reply (get_status env rid k)"
      and pos: "0 < i" and lat: "\<And>k. 0 \<le> status_time env k"
  shows "of_int T + st - now w < of_nat n * i \<Longrightarrow>
     \<exists>w'. poll_loop (Suc n) env rid T i st w = Some (Inl (TimeoutError T), w') \<and>
          of_int T < now w' - st \<and> polls w < polls w' \<and>
          (now w - st \<le> of_int T + i \<longrightarrow>
             now w' - st \<le> of_int T + i + status_time env (polls w' - 1))"
proof (induction n arbitrary: w)
  case 0
  have "now w + status_time env (polls w) - st > of_int T" using 0 lat[of "polls w"] by simp
  then show ?case using 0 lat[of "polls w"]
    by (simp add: poll_pass_pending[OF pend] Let_def)
next
  case (Suc n)
  show ?case
  proof (cases "now w + status_time env (polls w) - st > of_int T")
    case True
    then show ?thesis using Suc.prems
      by (simp add: poll_pass_pending[OF pend] Let_def)
  next
    case False
    let ?w1 = "log_event (Sleep i) ((log_event CheckTimeout (log_event (GetStatus rid)
                 (w\<lparr>now := now w + status_time env (polls w), polls := Suc (polls w)\<rparr>)))
                 \<lparr>now := now w + status_time env (polls w) + i\<rparr>)"
    have step: "poll_loop (Suc (Suc n)) env rid T i st w = poll_loop (Suc n) env rid T i st ?w1"
      using False pos by (simp add: poll_pass_pending[OF pend] Let_def)
    have a: "of_int T + st - now ?w1 < of_nat n * i"
      using Suc.prems(1) lat[of "polls w"] by (simp add: algebra_simps)
    have b: "now ?w1 - st \<le> of_int T + i" using False by simp
    from Suc.IH[OF a] b obtain w' where
      "poll_loop (Suc n) env rid T i st ?w1 = Some (Inl (TimeoutError T), w')"
      "of_int T < now w' - st" "polls ?w1 < polls w'"
      "now w' - st \<le> of_int T + i + status_time env (polls w' - 1)" by blast
    with step show ?thesis by auto
  qed
qed

lemma poll_loop_more_fuel:
  "poll_loop n env rid T i st w = Some x \<Longrightarrow> poll_loop (n + m) env rid T i st w = Some x"
proof (induction n arbitrary: w)
  case 0
  then show ?case by simp
next
  case (Suc n)
  then show ?case by (cases "poll_pass env rid T i st w") auto
qed


lemma poll_loop_deterministic:
  assumes "poll_loop n env rid T i st w = Some x" "poll_loop m env rid T i st w = Some y"
  shows "x = y"
proof -
  from assms(1) have "poll_loop (n + m) env rid T i st w = Some x" by (rule poll_loop_more_fuel)
  moreover from assms(2) have "poll_loop (m + n) env rid T i st w = Some y" by (rule poll_loop_more_fuel)
  ultimately show ?thesis by (simp add: add.commute)
qed

lemma poll_pass_complete:
  assumes "get_status env rid (polls w) = Inr status_json" "status_val status_json = Inr sv"
      and "classify sv = Complete"
  shows "poll_pass env rid T i st w =
     Leave (case get_result env rid of Inl t \<Rightarrow> Inl (Requests t) | Inr j \<Rightarrow> Inr j)
       (log_event (GetResult rid) (log_event (GetStatus rid)
          (w\<lparr>now := now w + status_time env (polls w), polls := Suc (polls w)\<rparr>)))"
  using assms
  by (auto simp: poll_pass_def get_job_status_def get_job_result_def Let_def split: sum.splits)

lemma poll_pass_failed:
  assumes "get_status env rid (polls w) = Inr status_json" "status_val status_json = Inr sv"
      and "classify sv = Failed"
  shows "poll_pass env rid T i st w =
     Leave (Inl (RuntimeError status_json))
       (log_event (GetStatus rid)
          (w\<lparr>now := now w + status_time env (polls w), polls := Suc (polls w)\<rparr>))"
  using assms
  by (auto simp: poll_pass_def get_job_status_def Let_def split: sum.splits)

lemma missing_status_pending:
  assumes "dict_get kvs ''status'' = JNull" "dict_get kvs ''state'' = JNull"
  shows "status_val (JObj kvs) = Inr []" "classify [] = Pending" "pending_reply (Inr (JObj kvs))"
proof -
  show 1: "status_val (JObj kvs) = Inr []"
    using assms by (simp add: status_val_def py_or_def)
  show 2: "classify [] = Pending"
    by (simp add: classify_def success_words_def failure_words_def)
  show "pending_reply (Inr (JObj kvs))"
    using 1 2 by (simp add: pending_reply_def)
qed

lemma poll_times_out:
  assumes pend: "\<And>k. pending_reply (get_status env rid k)"
      and pos: "0 < i" and lat: "\<And>k. 0 \<le> status_time env k"
      and n: "of_int T < of_nat n * i"
  shows "\<exists>w'. poll_until_complete (Suc n) env rid T i w = Some (Inl (TimeoutError T), w') \<and>
          of_int T < now w' - now w \<and>
          (0 \<le> of_int T + i \<longrightarrow> now w' - now w \<le> of_int T + i + status_time env (polls w' - 1))"
proof -
  have a: "of_int T + now w - now (log_event ReadStart w) < of_nat n * i" using n by simp
  from poll_loop_times_out[OF pend pos lat a]
  show ?thesis unfolding poll_until_complete_def by auto
qed

lemma poll_until_complete_deterministic:
  assumes "poll_until_complete n env rid T i w = Some x" "poll_until_complete m env rid T i w = Some y"
  shows "x = y"
  using assms unfolding poll_until_complete_def by (rule poll_loop_deterministic)

lemma pending_run_shape:
  assumes pend: "\<And>k. pending_reply (get_status env rid k)" and i: "0 \<le> i"
  shows "poll_loop n env rid T i st w = Some (r, w') \<Longrightarrow>
     r = Inl (TimeoutError T) \<and> polls w < polls w' \<and> of_int T < now w' - st \<and>
     trace w' = trace w @ pending_passes rid i (polls w' - polls w) \<and>
     now w' = now w + (\<Sum>k = polls w..<polls w'. status_time env k) +
              of_nat (polls w' - polls w - 1) * i"
proof (induction n arbitrary: w)
  case 0
  then show ?case by simp
next
  case (Suc n)
  let ?w2 = "log_event CheckTimeout (log_event (GetStatus rid)
               (w\<lparr>now := now w + status_time env (polls w), polls := Suc (polls w)\<rparr>))"
  show ?case
  proof (cases "now ?w2 - st > of_int T")
    case True
    with Suc.prems have "r = Inl (TimeoutError T)" "w' = ?w2"
      by (simp_all add: poll_pass_pending[OF pend] Let_def)
    with True show ?thesis by simp
  next
    case False
    let ?w1 = "log_event (Sleep i) (?w2\<lparr>now := now ?w2 + i\<rparr>)"
    from False i Suc.prems have run: "poll_loop n env rid T i st ?w1 = Some (r, w')"
      by (simp add: poll_pass_pending[OF pend] Let_def)
    from Suc.IH[OF run] have raw:
      "r = Inl (TimeoutError T)" "polls ?w1 < polls w'" "of_int T < now w' - st"
      "trace w' = trace ?w1 @ pending_passes rid i (polls w' - polls ?w1)"
      "now w' = now ?w1 + (\<Sum>k = polls ?w1..<polls w'. status_time env k) +
                of_nat (polls w' - polls ?w1 - 1) * i"
      by blast+
    have ih: "r = Inl (TimeoutError T)" "Suc (polls w) < polls w'" "of_int T < now w' - st"
      using raw(1,2,3) by simp_all
    have ih4: "trace w' = trace w @ [GetStatus rid, CheckTimeout, Sleep i] @
                 pending_passes rid i (polls w' - Suc (polls w))"
      using raw(4) by simp
    have ih5: "now w' = now w + status_time env (polls w) + i +
                (\<Sum>k = Suc (polls w)..<polls w'. status_time env k) +
                of_nat (polls w' - Suc (polls w) - 1) * i"
      using raw(5) by simp
    from ih(2) obtain m where m: "polls w' - polls w = Suc (Suc m)"
      by (metis Suc_diff_Suc Suc_lessD less_imp_Suc_add diff_add_inverse)
    then have m1: "polls w' - Suc (polls w) = Suc m" by simp
    have tr: "trace w' = trace w @ pending_passes rid i (polls w' - polls w)"
      using ih4 by (simp add: m m1)
    have su: "(\<Sum>k = polls w..<polls w'. status_time env k) =
              status_time env (polls w) + (\<Sum>k = Suc (polls w)..<polls w'. status_time env k)"
      using ih(2) by (simp add: sum.atLeast_Suc_lessThan)
    have ti: "now w' = now w + (\<Sum>k = polls w..<polls w'. status_time env k) +
              of_nat (polls w' - polls w - 1) * i"
      using ih5 by (simp add: su m m1 algebra_simps)
    from ih(1,2,3) tr ti show ?thesis by simp
  qed
qed

text \<open>
  C1 (as amended). In every run of \<^verbatim>\<open>poll_until_complete\<close> each timeout check comes
  directly after a status request, never before one. With a timeout of 5 seconds and an
  interval of 1 second, against a status endpoint that never names a terminal state, the
  call raises \<^verbatim>\<open>TimeoutError\<close> when more than 5 seconds have passed and no later than
  6 seconds plus the duration of the last status request. A pass that sees a success word
  returns the result even when the deadline has already passed.
\<close>

theorem timeout_checked_after_status:
  "(poll_until_complete n env rid T i w = Some (r, w') \<longrightarrow>
      checks_after_status None (drop (length (trace w)) (trace w')))
   \<and> ((\<forall>k. pending_reply (get_status envb ridb k)) \<and> (\<forall>k. 0 \<le> status_time envb k) \<longrightarrow>
      (\<exists>w2. poll_until_complete 7 envb ridb 5 1 wb = Some (Inl (TimeoutError 5), w2) \<and>
            5 < now w2 - now wb \<and>
            now w2 - now wb \<le> 6 + status_time envb (polls w2 - 1)))
   \<and> (get_status envc ridc (polls wc) = Inr status_json \<and> status_val status_json = Inr sv \<and>
      classify sv = Complete \<and> of_int Tc < now wc + status_time envc (polls wc) - st \<longrightarrow>
      (\<exists>w3. poll_loop (Suc m) envc ridc Tc ic st wc =
              Some ((case get_result envc ridc of Inl t \<Rightarrow> Inl (Requests t) | Inr j \<Rightarrow> Inr j), w3)))"
proof (intro conjI impI)
  assume "poll_until_complete n env rid T i w = Some (r, w')"
  then obtain t where "trace w' = trace (log_event ReadStart w) @ t" "\<forall>p. checks_after_status p t"
    unfolding poll_until_complete_def using poll_loop_trace by blast
  then show "checks_after_status None (drop (length (trace w)) (trace w'))" by simp
next
  assume h: "(\<forall>k. pending_reply (get_status envb ridb k)) \<and> (\<forall>k. 0 \<le> status_time envb k)"
  have n: "of_int 5 < of_nat 6 * (1::rat)" by simp
  have pend: "\<And>k. pending_reply (get_status envb ridb k)" using h by simp
  have lat: "\<And>k. 0 \<le> status_time envb k" using h by simp
  have pos: "0 < (1::rat)" by simp
  from poll_times_out[OF pend pos lat n, of wb]
  show "\<exists>w2. poll_until_complete 7 envb ridb 5 1 wb = Some (Inl (TimeoutError 5), w2) \<and>
            5 < now w2 - now wb \<and>
            now w2 - now wb \<le> 6 + status_time envb (polls w2 - 1)"
    by (simp add: numeral_eq_Suc)
next
  assume "get_status envc ridc (polls wc) = Inr status_json \<and> status_val status_json = Inr sv \<and>
      classify sv = Complete \<and> of_int Tc < now wc + status_time envc (polls wc) - st"
  then show "\<exists>w3. poll_loop (Suc m) envc ridc Tc ic st wc =
              Some ((case get_result envc ridc of Inl t \<Rightarrow> Inl (Requests t) | Inr j \<Rightarrow> Inr j), w3)"
    by (simp add: poll_pass_complete)
qed

text \<open>A run that times out at once, a run against an endpoint that answers
  \<^verbatim>\<open>running\<close> without delay, and a success seen after the deadline.\<close>

theorem timeout_checked_after_status_witness:
  "checks_after_status None [ReadStart, GetStatus (JStr ''job''), CheckTimeout] \<and>
   (\<exists>w2. poll_until_complete 7 (fixed_env (JObj [(''status'', JStr ''running'')]) 0 JNull)
            (JStr ''job'') 5 1 w0 = Some (Inl (TimeoutError 5), w2) \<and>
          5 < now w2 \<and> now w2 \<le> 6) \<and>
   (\<exists>w3. poll_loop (Suc 0) (fixed_env (JObj [(''status'', JStr ''COMPLETE'')]) 10 (JStr ''res''))
            (JStr ''job'') 5 1 0 w0 = Some (Inr (JStr ''res''), w3))"
proof -
  let ?env = "fixed_env (JObj [(''status'', JStr ''running'')]) (1/2) JNull"
  let ?envb = "fixed_env (JObj [(''status'', JStr ''running'')]) 0 JNull"
  let ?envc = "fixed_env (JObj [(''status'', JStr ''COMPLETE'')]) 10 (JStr ''res'')"
  let ?wF = "\<lparr>now = 1/2, polls = 1, trace = [ReadStart, GetStatus (JStr ''job''), CheckTimeout]\<rparr>"
  have p1: "poll_until_complete 1 ?env (JStr ''job'') 0 1 w0 = Some (Inl (TimeoutError 0), ?wF)"
    by code_simp
  have pr: "pending_reply (Inr (JObj [(''status'', JStr ''running'')]))" by code_simp
  have p2: "(\<forall>k. pending_reply (get_status ?envb (JStr ''job'') k)) \<and> (\<forall>k. 0 \<le> status_time ?envb k)"
    using pr by (simp add: fixed_env_def)
  have sv: "status_val (JObj [(''status'', JStr ''COMPLETE'')]) = Inr ''COMPLETE''" by code_simp
  have cl: "classify ''COMPLETE'' = Complete" by code_simp
  have p3: "get_status ?envc (JStr ''job'') (polls w0) = Inr (JObj [(''status'', JStr ''COMPLETE'')]) \<and>
      status_val (JObj [(''status'', JStr ''COMPLETE'')]) = Inr ''COMPLETE'' \<and>
      classify ''COMPLETE'' = Complete \<and> of_int 5 < now w0 + status_time ?envc (polls w0) - 0"
    using sv cl by (simp add: fixed_env_def w0_def)
  from timeout_checked_after_status[where n=1 and env="?env" and rid="JStr ''job''" and T=0 and i=1
      and w=w0 and r="Inl (TimeoutError 0)" and w'="?wF" and envb="?envb" and ridb="JStr ''job''"
      and wb=w0 and envc="?envc" and ridc="JStr ''job''" and wc=w0
      and status_json="JObj [(''status'', JStr ''COMPLETE'')]" and sv="''COMPLETE''" and Tc=5
      and st=0 and m=0 and ic=1] p1 p2 p3
  show ?thesis
    by (simp add: fixed_env_def w0_def)
qed

text \<open>When each status request takes half a second, the checks fall at 0.5, 2, 3.5, 5 and
  6.5 seconds: the call fails 6.5 seconds after its start, later than 6 seconds.\<close>

theorem timeout_window_counterexample:
  "pending_reply (Inr (JObj [(''status'', JStr ''running'')])) \<and>
   poll_report 7 (fixed_env (JObj [(''status'', JStr ''running'')]) (1/2) JNull) (JStr ''job'') 5 1 w0
     = Some (Inl (TimeoutError 5), 13/2) \<and>
   \<not> (13/2 \<le> (6::rat))"
  by code_simp

text \<open>
  C10. A status payload in which \<^verbatim>\<open>status\<close> and \<^verbatim>\<open>state\<close> are both absent or null
  normalises to the empty string, which is not terminal. A pass that sees such a payload
  before the deadline does not fail: after the status request and the timeout check it
  sleeps for the interval and the loop goes round again, with one more status request
  made. Against an endpoint that only ever sends such payloads the poller (with a
  positive interval) makes a status request and a timeout check in every pass, sleeps
  between passes, and ends with \<^verbatim>\<open>TimeoutError\<close> in the first pass that finds more
  than the timeout elapsed; the time that has passed is that of the status requests
  and the sleeps.
\<close>

theorem missing_status_keeps_polling:
  "(dict_get kvs ''status'' = JNull \<and> dict_get kvs ''state'' = JNull \<longrightarrow>
      status_val (JObj kvs) = Inr [] \<and> classify [] = Pending)
   \<and> (get_status enva rida (polls wa) = Inr (JObj da) \<and>
      dict_get da ''status'' = JNull \<and> dict_get da ''state'' = JNull \<and> 0 \<le> ia \<and>
      now wa + status_time enva (polls wa) - sta \<le> of_int Ta \<longrightarrow>
      (\<exists>w1. poll_pass enva rida Ta ia sta wa = Again w1 \<and>
            polls w1 = Suc (polls wa) \<and>
            now w1 = now wa + status_time enva (polls wa) + ia \<and>
            trace w1 = trace wa @ [GetStatus rida, CheckTimeout, Sleep ia] \<and>
            poll_loop (Suc m) enva rida Ta ia sta wa = poll_loop m enva rida Ta ia sta w1))
   \<and> ((\<forall>k. \<exists>d. get_status env rid k = Inr (JObj d) \<and>
               dict_get d ''status'' = JNull \<and> dict_get d ''state'' = JNull) \<and>
      0 < i \<and> (\<forall>k. 0 \<le> status_time env k) \<longrightarrow>
      (\<exists>n w'. poll_until_complete n env rid T i w = Some (Inl (TimeoutError T), w') \<and>
              of_int T < now w' - now w \<and>
              polls w < polls w' \<and>
              trace w' = trace w @ ReadStart # pending_passes rid i (polls w' - polls w) \<and>
              now w' - now w = (\<Sum>k = polls w..<polls w'. status_time env k) +
                               of_nat (polls w' - polls w - 1) * i \<and>
              (\<forall>m x. poll_until_complete m env rid T i w = Some x \<longrightarrow>
                     x = (Inl (TimeoutError T), w'))))"
proof (intro conjI impI)
  assume "dict_get kvs ''status'' = JNull \<and> dict_get kvs ''state'' = JNull"
  then show "status_val (JObj kvs) = Inr []" by (simp add: missing_status_pending)
next
  show "classify [] = Pending" by (simp add: classify_def success_words_def failure_words_def)
next
  assume h: "get_status enva rida (polls wa) = Inr (JObj da) \<and>
      dict_get da ''status'' = JNull \<and> dict_get da ''state'' = JNull \<and> 0 \<le> ia \<and>
      now wa + status_time enva (polls wa) - sta \<le> of_int Ta"
  then have "pending_reply (get_status enva rida (polls wa))"
    by (simp add: missing_status_pending(3))
  from poll_pass_pending[OF this, of Ta ia sta] h
  show "\<exists>w1. poll_pass enva rida Ta ia sta wa = Again w1 \<and>
            polls w1 = Suc (polls wa) \<and>
            now w1 = now wa + status_time enva (polls wa) + ia \<and>
            trace w1 = trace wa @ [GetStatus rida, CheckTimeout, Sleep ia] \<and>
            poll_loop (Suc m) enva rida Ta ia sta wa = poll_loop m enva rida Ta ia sta w1"
    by (simp add: Let_def)
next
  assume h: "(\<forall>k. \<exists>d. get_status env rid k = Inr (JObj d) \<and>
               dict_get d ''status'' = JNull \<and> dict_get d ''state'' = JNull) \<and>
      0 < i \<and> (\<forall>k. 0 \<le> status_time env k)"
  have pend: "\<And>k. pending_reply (get_status env rid k)"
  proof -
    fix k
    from h obtain d where "get_status env rid k = Inr (JObj d)"
      "dict_get d ''status'' = JNull" "dict_get d ''state'' = JNull" by blast
    then show "pending_reply (get_status env rid k)" by (simp add: missing_status_pending(3))
  qed
  from h have pos: "0 < i" and lat: "\<And>k. 0 \<le> status_time env k" by simp_all
  from pos obtain n where n: "of_int T < of_nat n * i" using ex_less_of_nat_mult by blast
  from poll_times_out[OF pend pos lat n, of w] obtain w' where
    w': "poll_until_complete (Suc n) env rid T i w = Some (Inl (TimeoutError T), w')"
        "of_int T < now w' - now w" by blast
  from pos have i0: "0 \<le> i" by simp
  from w'(1) have "poll_loop (Suc n) env rid T i (now w) (log_event ReadStart w) =
                   Some (Inl (TimeoutError T), w')"
    by (simp add: poll_until_complete_def)
  from pending_run_shape[OF pend i0 this]
  have sh: "polls w < polls w'"
    "trace w' = trace w @ ReadStart # pending_passes rid i (polls w' - polls w)"
    "now w' - now w = (\<Sum>k = polls w..<polls w'. status_time env k) +
                      of_nat (polls w' - polls w - 1) * i"
    by simp_all
  have "\<forall>m x. poll_until_complete m env rid T i w = Some x \<longrightarrow> x = (Inl (TimeoutError T), w')"
    using poll_until_complete_deterministic[OF _ w'(1)] by blast
  with w' sh show "\<exists>n w'. poll_until_complete n env rid T i w = Some (Inl (TimeoutError T), w') \<and>
              of_int T < now w' - now w \<and>
              polls w < polls w' \<and>
              trace w' = trace w @ ReadStart # pending_passes rid i (polls w' - polls w) \<and>
              now w' - now w = (\<Sum>k = polls w..<polls w'. status_time env k) +
                               of_nat (polls w' - polls w - 1) * i \<and>
              (\<forall>m x. poll_until_complete m env rid T i w = Some x \<longrightarrow>
                     x = (Inl (TimeoutError T), w'))" by blast
qed

text \<open>A payload with neither key set, polled with a timeout of 5 and an interval of 1.\<close>

theorem missing_status_keeps_polling_witness:
  "status_val (JObj [(''progress'', JNum 3), (''state'', JNull)]) = Inr [] \<and>
   (\<exists>w1. poll_pass (fixed_env (JObj [(''progress'', JNum 3), (''state'', JNull)]) 0 JNull)
            (JStr ''job'') 5 1 0 w0 = Again w1 \<and>
          polls w1 = 1 \<and> now w1 = 1 \<and>
          trace w1 = [GetStatus (JStr ''job''), CheckTimeout, Sleep 1]) \<and>
   (\<exists>n w'. poll_until_complete n (fixed_env (JObj [(''progress'', JNum 3), (''state'', JNull)]) 0 JNull)
              (JStr ''job'') 5 1 w0 = Some (Inl (TimeoutError 5), w') \<and> 5 < now w' \<and>
            0 < polls w' \<and>
            trace w' = ReadStart # pending_passes (JStr ''job'') 1 (polls w') \<and>
            now w' = of_nat (polls w' - 1))"
proof -
  let ?kvs = "[(''progress'', JNum 3), (''state'', JNull)]"
  let ?env = "fixed_env (JObj ?kvs) 0 JNull"
  have a: "dict_get ?kvs ''status'' = JNull \<and> dict_get ?kvs ''state'' = JNull"
    by (simp add: dict_get_def)
  have b: "get_status ?env (JStr ''job'') (polls w0) = Inr (JObj ?kvs) \<and>
      dict_get ?kvs ''status'' = JNull \<and> dict_get ?kvs ''state'' = JNull \<and> 0 \<le> (1::rat) \<and>
      now w0 + status_time ?env (polls w0) - 0 \<le> of_int 5"
    using a by (simp add: fixed_env_def w0_def)
  have c: "(\<forall>k. \<exists>d. get_status ?env (JStr ''job'') k = Inr (JObj d) \<and>
               dict_get d ''status'' = JNull \<and> dict_get d ''state'' = JNull) \<and>
      0 < (1::rat) \<and> (\<forall>k. 0 \<le> status_time ?env k)"
    using a by (simp add: fixed_env_def)
  have z: "status_time ?env = (\<lambda>k. 0)" by (simp add: fixed_env_def)
  from missing_status_keeps_polling[where kvs="?kvs" and enva="?env" and rida="JStr ''job''"
      and wa=w0 and da="?kvs" and ia=1 and sta=0 and Ta=5 and m=0
      and env="?env" and rid="JStr ''job''" and i=1 and T=5 and w=w0] a b c
  have r: "status_val (JObj ?kvs) = Inr []"
    "\<exists>w1. poll_pass ?env (JStr ''job'') 5 1 0 w0 = Again w1 \<and>
            polls w1 = Suc (polls w0) \<and>
            now w1 = now w0 + status_time ?env (polls w0) + 1 \<and>
            trace w1 = trace w0 @ [GetStatus (JStr ''job''), CheckTimeout, Sleep 1] \<and>
            poll_loop (Suc 0) ?env (JStr ''job'') 5 1 0 w0 = poll_loop 0 ?env (JStr ''job'') 5 1 0 w1"
    "\<exists>n w'. poll_until_complete n ?env (JStr ''job'') 5 1 w0 = Some (Inl (TimeoutError 5), w') \<and>
              of_int 5 < now w' - now w0 \<and>
              polls w0 < polls w' \<and>
              trace w' = trace w0 @ ReadStart # pending_passes (JStr ''job'') 1 (polls w' - polls w0) \<and>
              now w' - now w0 = (\<Sum>k = polls w0..<polls w'. status_time ?env k) +
                               of_nat (polls w' - polls w0 - 1) * 1 \<and>
              (\<forall>m x. poll_until_complete m ?env (JStr ''job'') 5 1 w0 = Some x \<longrightarrow>
                     x = (Inl (TimeoutError 5), w'))"
    by blast+
  from r(2) have r2: "\<exists>w1. poll_pass ?env (JStr ''job'') 5 1 0 w0 = Again w1 \<and>
          polls w1 = 1 \<and> now w1 = 1 \<and>
          trace w1 = [GetStatus (JStr ''job''), CheckTimeout, Sleep 1]"
    by (auto simp: w0_def z)
  from r(3) have r3: "\<exists>n w'. poll_until_complete n ?env (JStr ''job'') 5 1 w0 =
              Some (Inl (TimeoutError 5), w') \<and> 5 < now w' \<and> 0 < polls w' \<and>
            trace w' = ReadStart # pending_passes (JStr ''job'') 1 (polls w') \<and>
            now w' = of_nat (polls w' - 1)"
    by (auto simp: w0_def z)
  from r(1) r2 r3 show ?thesis by simp
qed

text \<open>
  C4 (as amended). The status word is normalised by \<^verbatim>\<open>str.upper()\<close>. Whatever string the
  status payload holds under \<^verbatim>\<open>status\<close> (or \<^verbatim>\<open>state\<close>), it is a terminal success
  exactly when it spells COMPLETE, SUCCEEDED or SUCCESS with each letter in either case,
  a terminal failure exactly when it so spells FAILED or ERROR, and not terminal
  otherwise, where a sharp s counts as SS, a long s as S, a dotless i as I and a ligature
  as its letters. For a string of ASCII characters that is: exactly when it is one of the
  words in any letter case.
\<close>

theorem status_words_any_case:
  assumes "py_or (py_or (dict_get kvs ''status'') (dict_get kvs ''state'')) (JStr []) = JStr s"
  shows "status_val (JObj kvs) = Inr (upper s) \<and>
         classify (upper s) =
           (if any_case (fold_specials s) ''COMPLETE'' \<or>
               any_case (fold_specials s) ''SUCCEEDED'' \<or>
               any_case (fold_specials s) ''SUCCESS''
              then Complete
            else if any_case (fold_specials s) ''FAILED'' \<or> any_case (fold_specials s) ''ERROR''
              then Failed
            else Pending) \<and>
         (ascii_text s \<longrightarrow> fold_specials s = s)"
  using assms classify_spelling[of s] fold_specials_ascii[of s] by (simp add: status_val_def)

text \<open>Three ASCII status payloads, one of each class, and \<^verbatim>\<open>fa\<close>, dotless i,
  \<^verbatim>\<open>led\<close>.\<close>

theorem status_words_any_case_witness:
  "status_val (JObj [(''state'', JStr ''Succeeded'')]) = Inr (upper ''Succeeded'') \<and>
   classify (upper ''Succeeded'') = Complete \<and>
   status_val (JObj [(''status'', JStr ''error'')]) = Inr (upper ''error'') \<and>
   classify (upper ''error'') = Failed \<and>
   status_val (JObj [(''status'', JStr ''Completed'')]) = Inr (upper ''Completed'') \<and>
   classify (upper ''Completed'') = Pending \<and>
   classify (upper (''fa'' @ [CHR 0xC4, CHR 0xB1] @ ''led'')) = Failed"
proof -
  have a: "ascii_text ''Succeeded''" "ascii_text ''error''" "ascii_text ''Completed''"
    by (simp_all add: ascii_text_def)
  have f: "fold_specials (''fa'' @ [CHR 0xC4, CHR 0xB1] @ ''led'') = ''faIled''"
    by (simp add: utf8_len_def special_spellings_eval)
  have p: "py_or (py_or (dict_get [(''status'', JStr (''fa'' @ [CHR 0xC4, CHR 0xB1] @ ''led''))] ''status'')
             (dict_get [(''status'', JStr (''fa'' @ [CHR 0xC4, CHR 0xB1] @ ''led''))] ''state''))
             (JStr []) = JStr (''fa'' @ [CHR 0xC4, CHR 0xB1] @ ''led'')"
    by (simp add: py_or_def dict_get_def)
  have 1: "status_val (JObj [(''state'', JStr ''Succeeded'')]) = Inr (upper ''Succeeded'') \<and>
           classify (upper ''Succeeded'') = Complete"
    using status_words_any_case[of "[(''state'', JStr ''Succeeded'')]" "''Succeeded''"] a(1)
    by (simp add: py_or_def dict_get_def any_case_def case_variant_char_def)
  have 2: "status_val (JObj [(''status'', JStr ''error'')]) = Inr (upper ''error'') \<and>
           classify (upper ''error'') = Failed"
    using status_words_any_case[of "[(''status'', JStr ''error'')]" "''error''"] a(2)
    by (simp add: py_or_def dict_get_def any_case_def case_variant_char_def)
  have 3: "status_val (JObj [(''status'', JStr ''Completed'')]) = Inr (upper ''Completed'') \<and>
           classify (upper ''Completed'') = Pending"
    using status_words_any_case[of "[(''status'', JStr ''Completed'')]" "''Completed''"] a(3)
    by (simp add: py_or_def dict_get_def any_case_def case_variant_char_def)
  have 4: "classify (upper (''fa'' @ [CHR 0xC4, CHR 0xB1] @ ''led'')) = Failed"
    using status_words_any_case[OF p] unfolding f
    by (simp add: any_case_def case_variant_char_def)
  from 1 2 3 4 show ?thesis by simp
qed

text \<open>The string \<^verbatim>\<open>succe\<close> followed by a sharp s is none of the three success words
  in any letter case, and the poller takes it for a terminal success.\<close>

theorem sharp_s_counterexample:
  "\<not> any_case (''succe'' @ [CHR 0xC3, CHR 0x9F]) ''COMPLETE'' \<and>
   \<not> any_case (''succe'' @ [CHR 0xC3, CHR 0x9F]) ''SUCCEEDED'' \<and>
   \<not> any_case (''succe'' @ [CHR 0xC3, CHR 0x9F]) ''SUCCESS'' \<and>
   status_val (JObj [(''status'', JStr (''succe'' @ [CHR 0xC3, CHR 0x9F]))]) = Inr ''SUCCESS'' \<and>
   classify ''SUCCESS'' = Complete"
proof -
  have n: "\<not> any_case (''succe'' @ [CHR 0xC3, CHR 0x9F]) ''COMPLETE''"
          "\<not> any_case (''succe'' @ [CHR 0xC3, CHR 0x9F]) ''SUCCEEDED''"
          "\<not> any_case (''succe'' @ [CHR 0xC3, CHR 0x9F]) ''SUCCESS''"
    by (simp_all add: any_case_def case_variant_char_def)
  have s: "status_val (JObj [(''status'', JStr (''succe'' @ [CHR 0xC3, CHR 0x9F]))]) = Inr ''SUCCESS''"
    using upper_sharp_s by (simp add: status_val_def py_or_def dict_get_def)
  have c: "classify ''SUCCESS'' = Complete"
    by (simp add: classify_def success_words_def)
  from n s c show ?thesis by simp
qed

text \<open>
  C5. A pass of the loop that sees a status word of the success class returns what a
  separate request to the result endpoint answers (or raises what that request raises);
  the status payload plays no part in the value returned.
\<close>

theorem complete_fetches_result:
  assumes "get_status env rid (polls w) = Inr status_json"
      and "status_val status_json = Inr sv" and "classify sv = Complete"
  shows "\<exists>w'. poll_loop (Suc n) env rid T i st w =
            Some ((case get_result env rid of Inl t \<Rightarrow> Inl (Requests t) | Inr j \<Rightarrow> Inr j), w') \<and>
          trace w' = trace w @ [GetStatus rid, GetResult rid]"
  by (simp add: poll_pass_complete[OF assms])

text \<open>The status payload says \<^verbatim>\<open>COMPLETE\<close>; what comes back is the answer of the result
  endpoint.\<close>

theorem complete_fetches_result_witness:
  "\<exists>w'. poll_loop (Suc 0) (fixed_env (JObj [(''status'', JStr ''COMPLETE'')]) 0
             (JObj [(''url'', JStr ''http://x/img.png'')])) (JStr ''job'') 5 1 0 w0 =
           Some (Inr (JObj [(''url'', JStr ''http://x/img.png'')]), w') \<and>
         trace w' = [GetStatus (JStr ''job''), GetResult (JStr ''job'')]"
proof -
  let ?env = "fixed_env (JObj [(''status'', JStr ''COMPLETE'')]) 0
                (JObj [(''url'', JStr ''http://x/img.png'')])"
  have h1: "get_status ?env (JStr ''job'') (polls w0) = Inr (JObj [(''status'', JStr ''COMPLETE'')])"
    by (simp add: fixed_env_def)
  have h2: "status_val (JObj [(''status'', JStr ''COMPLETE'')]) = Inr ''COMPLETE''"
    by code_simp
  have h3: "classify ''COMPLETE'' = Complete"
    by code_simp
  show ?thesis
    using complete_fetches_result[OF h1 h2 h3, of 0 5 1 0]
    by (simp add: fixed_env_def w0_def)
qed

text \<open>
  C6. A pass of the loop that sees a status word of the failure class raises
  \<^verbatim>\<open>RuntimeError\<close> with the status payload at once: after the status request there is
  no timeout check, no sleep and no further status request.
\<close>

theorem failed_raises_at_once:
  assumes "get_status env rid (polls w) = Inr status_json"
      and "status_val status_json = Inr sv" and "classify sv = Failed"
  shows "\<exists>w'. poll_loop (Suc n) env rid T i st w = Some (Inl (RuntimeError status_json), w') \<and>
          trace w' = trace w @ [GetStatus rid] \<and> polls w' = Suc (polls w)"
  by (simp add: poll_pass_failed[OF assms])

text \<open>The status payload says \<^verbatim>\<open>failed\<close>.\<close>

theorem failed_raises_at_once_witness:
  "\<exists>w'. poll_loop (Suc 0) (fixed_env (JObj [(''status'', JStr ''failed'')]) 0 JNull)
             (JStr ''job'') 5 1 0 w0 =
           Some (Inl (RuntimeError (JObj [(''status'', JStr ''failed'')])), w') \<and>
         trace w' = [GetStatus (JStr ''job'')] \<and> polls w' = 1"
proof -
  let ?env = "fixed_env (JObj [(''status'', JStr ''failed'')]) 0 JNull"
  have h1: "get_status ?env (JStr ''job'') (polls w0) = Inr (JObj [(''status'', JStr ''failed'')])"
    by (simp add: fixed_env_def)
  have h2: "status_val (JObj [(''status'', JStr ''failed'')]) = Inr ''FAILED''"
    by code_simp
  have h3: "classify ''FAILED'' = Failed"
    by code_simp
  show ?thesis
    using failed_raises_at_once[OF h1 h2 h3, of 0 5 1 0]
    by (simp add: w0_def)
qed

section \<open>Properties of the extractor\<close>

lemma find_none:
  "http_strings j = [] \<Longrightarrow> find_first_url j = None"
  "http_strings_items kvs = [] \<Longrightarrow> find_in_items kvs = None"
  "http_strings_list xs = [] \<Longrightarrow> find_in_list xs = None"
  by (induction j and kvs and xs rule: find_first_url_find_in_items_find_in_list.induct)
     (auto split: json.splits option.splits)

lemma output_array_unusable:
  assumes "\<not> usable_output (dict_get kvs ''output'')"
      and "\<not> usable_output (dict_get kvs ''outputs'')"
      and "\<not> usable_output (dict_get kvs ''results'')"
  shows "output_array env kvs = None"
proof -
  let ?out = "py_or (py_or (dict_get kvs ''output'') (dict_get kvs ''outputs'')) (dict_get kvs ''results'')"
  have "\<not> usable_output ?out" using assms by (simp add: py_or_def)
  then show ?thesis
    by (auto simp: output_array_def usable_output_def Let_def split: json.splits list.splits)
qed

text \<open>
  C8. A result with no truthy top-level \<^verbatim>\<open>url\<close>, with none of \<^verbatim>\<open>output\<close>,
  \<^verbatim>\<open>outputs\<close>, \<^verbatim>\<open>results\<close> bound to a usable value and with no string beginning with
  \<^verbatim>\<open>http\<close> anywhere in it yields no bytes: the extractor returns \<^verbatim>\<open>(None, None)\<close> and
  the handler answers 500 "No image found in inference result" carrying the result.
\<close>

theorem no_image_found:
  assumes "\<not> truthy (dict_get kvs ''url'')"
      and "\<not> usable_output (dict_get kvs ''output'')"
      and "\<not> usable_output (dict_get kvs ''outputs'')"
      and "\<not> usable_output (dict_get kvs ''results'')"
      and "http_strings (JObj kvs) = []"
  shows "extract_image_bytes_from_result env (JObj kvs) = Inr None \<and>
         after_poll env (Inr (JObj kvs)) =
           Return (Jsonify 500 [(''error'', Text ''No image found in inference result''),
                                (''result'', Payload (JObj kvs))])"
proof -
  have "find_first_url (JObj kvs) = None" using assms(5) by (rule find_none(1))
  then have "extract_image_bytes_from_result env (JObj kvs) = Inr None"
    using assms(1) output_array_unusable[OF assms(2,3,4), of env]
    by (simp add: extract_image_bytes_from_result_def)
  then show ?thesis by (simp add: after_poll_def)
qed

text \<open>A result with an empty output array and a nested string that is no URL.\<close>

theorem no_image_found_witness:
  "extract_image_bytes_from_result (fixed_env JNull 0 JNull)
     (JObj [(''status'', JStr ''done''), (''output'', JArr []),
            (''meta'', JObj [(''note'', JStr ''see ftp://x'')])]) = Inr None \<and>
   after_poll (fixed_env JNull 0 JNull)
     (Inr (JObj [(''status'', JStr ''done''), (''output'', JArr []),
                 (''meta'', JObj [(''note'', JStr ''see ftp://x'')])])) =
     Return (Jsonify 500 [(''error'', Text ''No image found in inference result''),
        (''result'', Payload (JObj [(''status'', JStr ''done''), (''output'', JArr []),
                 (''meta'', JObj [(''note'', JStr ''see ftp://x'')])]))])"
proof -
  let ?kvs = "[(''status'', JStr ''done''), (''output'', JArr []),
               (''meta'', JObj [(''note'', JStr ''see ftp://x'')])]"
  have h1: "\<not> truthy (dict_get ?kvs ''url'')" by code_simp
  have h2: "\<not> usable_output (dict_get ?kvs ''output'')" by code_simp
  have h3: "\<not> usable_output (dict_get ?kvs ''outputs'')" by code_simp
  have h4: "\<not> usable_output (dict_get ?kvs ''results'')" by code_simp
  have h5: "http_strings (JObj ?kvs) = []" by code_simp
  show ?thesis
    using no_image_found[OF h1 h2 h3 h4 h5, of "fixed_env JNull 0 JNull"] by simp
qed

text \<open>The decoder inverts the standard encoding: every byte string comes back from
  its base64 text.\<close>

lemma of_char_b64_char:
  "v < 64 \<Longrightarrow> (of_char (b64_char v) :: nat) =
     (if v < 26 then v + 65 else if v < 52 then v + 71 else if v < 62 then v - 4
      else if v = 62 then 43 else 47)"
  by (auto simp: b64_char_def)

lemma b64_value_char: "v < 64 \<Longrightarrow> b64_value (b64_char v) = Some v"
  by (auto simp: b64_value_def of_char_b64_char Let_def)

lemma b64_char_not_pad: "v < 64 \<Longrightarrow> b64_char v \<noteq> CHR ''=''"
proof
  assume v: "v < 64" and "b64_char v = CHR ''=''"
  then have "(of_char (b64_char v) :: nat) = 61" by simp
  with v show False by (auto simp: of_char_b64_char split: if_splits)
qed

lemma b64_char_ascii: "v < 64 \<Longrightarrow> (of_char (b64_char v) :: nat) < 128"
  by (auto simp: of_char_b64_char)

lemma of_char_lt: "(of_char (x::char) :: nat) < 256"
  by (metis of_char_mod_256 mod_less_divisor zero_less_numeral)

lemma a2b_data:
  assumes "v < 64"
  shows "a2b_base64 out q l p (b64_char v # cs) =
     (if q = 0 then a2b_base64 out 1 v 0 cs
      else if q = 1 then a2b_base64 (out @ [char_of (l * 4 + v div 16)]) 2 (v mod 16) 0 cs
      else if q = 2 then a2b_base64 (out @ [char_of (l * 16 + v div 4)]) 3 (v mod 4) 0 cs
      else a2b_base64 (out @ [char_of (l * 64 + v)]) 0 0 0 cs)"
  using assms by (simp add: b64_value_char b64_char_not_pad)

lemma sextets:
  fixes a b c :: nat
  assumes "a < 256" "b < 256" "c < 256"
  shows "a div 4 < 64" "(a mod 4) * 16 < 64" "(a mod 4) * 16 + b div 16 < 64"
        "(b mod 16) * 4 < 64" "(b mod 16) * 4 + c div 64 < 64" "c mod 64 < 64"
  using assms by auto

lemma octets:
  fixes a b c :: nat
  assumes "a < 256" "b < 256" "c < 256"
  shows "a div 4 * 4 + (a mod 4) * 16 div 16 = a"
        "a div 4 * 4 + ((a mod 4) * 16 + b div 16) div 16 = a"
        "((a mod 4) * 16 + b div 16) mod 16 = b div 16"
        "b div 16 * 16 + (b mod 16) * 4 div 4 = b"
        "b div 16 * 16 + ((b mod 16) * 4 + c div 64) div 4 = b"
        "((b mod 16) * 4 + c div 64) mod 4 = c div 64"
        "c div 64 * 64 + c mod 64 = c"
  using assms by auto

lemma a2b_quad:
  assumes "v1 < 64" "v2 < 64" "v3 < 64" "v4 < 64"
  shows "a2b_base64 out 0 0 0 (b64_char v1 # b64_char v2 # b64_char v3 # b64_char v4 # cs) =
     a2b_base64 (out @ [char_of (v1 * 4 + v2 div 16), char_of (v2 mod 16 * 16 + v3 div 4),
                        char_of (v3 mod 4 * 64 + v4)]) 0 0 0 cs"
  by (simp add: a2b_data[OF assms(1)] a2b_data[OF assms(2)] a2b_data[OF assms(3)]
        a2b_data[OF assms(4)] del: a2b_base64.simps(2))

lemma a2b_pad1:
  assumes "v1 < 64" "v2 < 64" "v3 < 64"
  shows "a2b_base64 out 0 0 0 [b64_char v1, b64_char v2, b64_char v3, CHR ''=''] =
     Inr (out @ [char_of (v1 * 4 + v2 div 16), char_of (v2 mod 16 * 16 + v3 div 4)])"
  by (simp add: a2b_data[OF assms(1)] a2b_data[OF assms(2)] a2b_data[OF assms(3)]
        del: a2b_base64.simps(2)) simp

lemma a2b_pad2:
  assumes "v1 < 64" "v2 < 64"
  shows "a2b_base64 out 0 0 0 [b64_char v1, b64_char v2, CHR ''='', CHR ''=''] =
     Inr (out @ [char_of (v1 * 4 + v2 div 16)])"
  by (simp add: a2b_data[OF assms(1)] a2b_data[OF assms(2)] del: a2b_base64.simps(2)) simp

lemma a2b_b64encode: "a2b_base64 out 0 0 0 (b64encode bs) = Inr (out @ bs)"
proof (induction bs arbitrary: out rule: b64encode.induct)
  case 1
  then show ?case by simp
next
  case (2 x)
  define a where "a = (of_char x :: nat)"
  have a: "a < 256" unfolding a_def by (rule of_char_lt)
  note r = sextets[OF a a a]
  have "a div 4 * 4 + (a mod 4) * 16 div 16 = a" by (rule octets[OF a a a])
  then have "char_of (a div 4 * 4 + (a mod 4) * 16 div 16) = char_of a" by (simp only:)
  then have "char_of (a div 4 * 4 + (a mod 4) * 16 div 16) = x" by (simp only: a_def char_of_char)
  then have "a2b_base64 out 0 0 0 [b64_char (a div 4), b64_char ((a mod 4) * 16), CHR ''='', CHR ''='']
        = Inr (out @ [x])"
    by (simp only: a2b_pad2[OF r(1) r(2)])
  then show ?case by (simp add: a_def Let_def del: a2b_base64.simps)
next
  case (3 x y)
  define a where "a = (of_char x :: nat)"
  define b where "b = (of_char y :: nat)"
  have a: "a < 256" and b: "b < 256" unfolding a_def b_def by (rule of_char_lt)+
  note r = sextets[OF a b b]
  note e = octets[OF a b b]
  have "char_of (a div 4 * 4 + ((a mod 4) * 16 + b div 16) div 16) = x"
    by (simp only: e(2)) (simp only: a_def char_of_char)
  moreover have "char_of (((a mod 4) * 16 + b div 16) mod 16 * 16 + (b mod 16) * 4 div 4) = y"
    by (simp only: e(3) e(4)) (simp only: b_def char_of_char)
  ultimately have "a2b_base64 out 0 0 0 [b64_char (a div 4), b64_char ((a mod 4) * 16 + b div 16),
          b64_char ((b mod 16) * 4), CHR ''=''] = Inr (out @ [x, y])"
    by (simp only: a2b_pad1[OF r(1) r(3) r(4)])
  then show ?case by (simp add: a_def b_def Let_def del: a2b_base64.simps)
next
  case (4 x y z rest)
  define a where "a = (of_char x :: nat)"
  define b where "b = (of_char y :: nat)"
  define c where "c = (of_char z :: nat)"
  have a: "a < 256" and b: "b < 256" and c: "c < 256"
    unfolding a_def b_def c_def by (rule of_char_lt)+
  note r = sextets[OF a b c]
  note e = octets[OF a b c]
  have ih: "a2b_base64 (out @ [x, y, z]) 0 0 0 (b64encode rest) = Inr ((out @ [x, y, z]) @ rest)"
    using 4[of a b c "out @ [x, y, z]"] by (simp add: a_def b_def c_def)
  have "char_of (a div 4 * 4 + ((a mod 4) * 16 + b div 16) div 16) = x"
    by (simp only: e(2)) (simp only: a_def char_of_char)
  moreover have
    "char_of (((a mod 4) * 16 + b div 16) mod 16 * 16 + ((b mod 16) * 4 + c div 64) div 4) = y"
    by (simp only: e(3) e(5)) (simp only: b_def char_of_char)
  moreover have "char_of (((b mod 16) * 4 + c div 64) mod 4 * 64 + c mod 64) = z"
    by (simp only: e(6) e(7)) (simp only: c_def char_of_char)
  ultimately have "a2b_base64 out 0 0 0 (b64_char (a div 4) # b64_char ((a mod 4) * 16 + b div 16) #
          b64_char ((b mod 16) * 4 + c div 64) # b64_char (c mod 64) # b64encode rest)
        = a2b_base64 (out @ [x, y, z]) 0 0 0 (b64encode rest)"
    by (simp only: a2b_quad[OF r(1) r(3) r(5) r(6)])
  with ih show ?case by (simp add: a_def b_def c_def Let_def del: a2b_base64.simps)
qed

lemma b64encode_ascii: "list_all (\<lambda>c. (of_char c :: nat) < 128) (b64encode bs)"
proof (induction bs rule: b64encode.induct)
  case (2 x)
  have a: "(of_char x :: nat) < 256" by (rule of_char_lt)
  note r = sextets[OF a a a]
  show ?case by (simp add: Let_def b64_char_ascii[OF r(1)] b64_char_ascii[OF r(2)])
next
  case (3 x y)
  have a: "(of_char x :: nat) < 256" and b: "(of_char y :: nat) < 256" by (rule of_char_lt)+
  note r = sextets[OF a b b]
  show ?case
    by (simp add: Let_def b64_char_ascii[OF r(1)] b64_char_ascii[OF r(3)] b64_char_ascii[OF r(4)])
next
  case (4 x y z rest)
  have a: "(of_char x :: nat) < 256" and b: "(of_char y :: nat) < 256"
    and c: "(of_char z :: nat) < 256" by (rule of_char_lt)+
  note r = sextets[OF a b c]
  from 4 show ?case
    by (simp add: Let_def b64_char_ascii[OF r(1)] b64_char_ascii[OF r(3)]
          b64_char_ascii[OF r(5)] b64_char_ascii[OF r(6)])
qed simp

lemma b64decode_b64encode: "b64decode (JStr (b64encode bs)) = Inr bs"
  using a2b_b64encode[of "[]" bs] by (simp add: b64decode_def b64encode_ascii)

lemma b64_branch:
  assumes "\<not> truthy (dict_get kvs ''url'')"
      and "py_or (py_or (dict_get kvs ''output'') (dict_get kvs ''outputs'')) (dict_get kvs ''results'')
             = JArr (JObj it # others)"
      and "\<not> truthy (dict_get it ''url'')"
      and "truthy (dict_get it ''base64'') \<or> truthy (dict_get it ''b64'')"
  shows "extract_image_bytes_from_result env (JObj kvs) =
           (case b64decode (if truthy (dict_get it ''base64'') then dict_get it ''base64''
                            else dict_get it ''b64'') of
              Inl e \<Rightarrow> Inl e
            | Inr b \<Rightarrow> Inr (Some (b, ''image/png'')))"
  using assms
  by (simp add: extract_image_bytes_from_result_def output_array_def Let_def py_or_def)

text \<open>
  C7. The result \<^verbatim>\<open>{"output": [{"base64": "aGVsbG8="}]}\<close> yields the bytes of
  \<^verbatim>\<open>hello\<close> with content type \<^verbatim>\<open>image/png\<close>. In general, when the first element of
  the output array is a mapping without a truthy \<^verbatim>\<open>url\<close>, the value under \<^verbatim>\<open>base64\<close>
  is taken before the one under \<^verbatim>\<open>b64\<close>, it is decoded as base64, and the content
  type is \<^verbatim>\<open>image/png\<close>.
\<close>

theorem base64_output:
  "extract_image_bytes_from_result env
     (JObj [(''output'', JArr [JObj [(''base64'', JStr ''aGVsbG8='')]])]) =
     Inr (Some (''hello'', ''image/png''))
   \<and> (\<not> truthy (dict_get kvs ''url'') \<and>
      py_or (py_or (dict_get kvs ''output'') (dict_get kvs ''outputs'')) (dict_get kvs ''results'')
        = JArr (JObj it # others) \<and>
      \<not> truthy (dict_get it ''url'') \<and>
      (truthy (dict_get it ''base64'') \<or> truthy (dict_get it ''b64'')) \<longrightarrow>
      extract_image_bytes_from_result env (JObj kvs) =
        (case b64decode (if truthy (dict_get it ''base64'') then dict_get it ''base64''
                         else dict_get it ''b64'') of
           Inl e \<Rightarrow> Inl e
         | Inr b \<Rightarrow> Inr (Some (b, ''image/png''))))"
proof
  show "extract_image_bytes_from_result env
     (JObj [(''output'', JArr [JObj [(''base64'', JStr ''aGVsbG8='')]])]) =
     Inr (Some (''hello'', ''image/png''))"
    by code_simp
next
  show "\<not> truthy (dict_get kvs ''url'') \<and>
      py_or (py_or (dict_get kvs ''output'') (dict_get kvs ''outputs'')) (dict_get kvs ''results'')
        = JArr (JObj it # others) \<and>
      \<not> truthy (dict_get it ''url'') \<and>
      (truthy (dict_get it ''base64'') \<or> truthy (dict_get it ''b64'')) \<longrightarrow>
      extract_image_bytes_from_result env (JObj kvs) =
        (case b64decode (if truthy (dict_get it ''base64'') then dict_get it ''base64''
                         else dict_get it ''b64'') of
           Inl e \<Rightarrow> Inl e
         | Inr b \<Rightarrow> Inr (Some (b, ''image/png'')))"
    using b64_branch[of kvs it others env] by blast
qed

text \<open>An empty \<^verbatim>\<open>base64\<close> gives way to \<^verbatim>\<open>b64\<close>.\<close>

theorem base64_output_witness:
  "extract_image_bytes_from_result (fixed_env JNull 0 JNull)
     (JObj [(''outputs'', JArr [JObj [(''base64'', JStr ''''), (''b64'', JStr ''aGk='')]])]) =
     Inr (Some (''hi'', ''image/png''))"
proof -
  let ?it = "[(''base64'', JStr ''''), (''b64'', JStr ''aGk='')]"
  let ?kvs = "[(''outputs'', JArr [JObj ?it])]"
  have h: "\<not> truthy (dict_get ?kvs ''url'') \<and>
      py_or (py_or (dict_get ?kvs ''output'') (dict_get ?kvs ''outputs'')) (dict_get ?kvs ''results'')
        = JArr (JObj ?it # []) \<and>
      \<not> truthy (dict_get ?it ''url'') \<and>
      (truthy (dict_get ?it ''base64'') \<or> truthy (dict_get ?it ''b64''))"
    by code_simp
  have d: "b64decode (JStr ''aGk='') = Inr ''hi''" by code_simp
  have g: "dict_get ?it ''base64'' = JStr ''''" "dict_get ?it ''b64'' = JStr ''aGk=''"
    by (simp_all add: dict_get_def)
  from base64_output[where kvs="?kvs" and it="?it" and others="[]" and env="fixed_env JNull 0 JNull"] h
  have "extract_image_bytes_from_result (fixed_env JNull 0 JNull) (JObj ?kvs) =
        (case b64decode (if truthy (dict_get ?it ''base64'') then dict_get ?it ''base64''
                         else dict_get ?it ''b64'') of
           Inl e \<Rightarrow> Inl e
         | Inr b \<Rightarrow> Inr (Some (b, ''image/png'')))" by blast
  then show ?thesis using d g by simp
qed

text \<open>What \<^verbatim>\<open>find_first_url\<close> finds: the first string beginning with \<^verbatim>\<open>http\<close>
  among the values of mappings, in depth-first order.\<close>

lemma startswith_http_nonempty: "startswith_http s \<Longrightarrow> s \<noteq> []"
  by (auto simp: startswith_http_def)

lemma mapping_http_strings_nonempty:
  "u \<in> set (mapping_http_strings j) \<Longrightarrow> u \<noteq> []"
  "u \<in> set (mapping_http_strings_items kvs) \<Longrightarrow> u \<noteq> []"
  "u \<in> set (mapping_http_strings_list xs) \<Longrightarrow> u \<noteq> []"
  by (induction j and kvs and xs rule: mapping_http_strings_mapping_http_strings_items_mapping_http_strings_list.induct)
     (auto split: json.splits if_splits dest: startswith_http_nonempty)

lemma first_of_append: "first_of (xs @ ys) = (case first_of xs of Some x \<Rightarrow> Some x | None \<Rightarrow> first_of ys)"
  by (cases xs) (simp_all add: first_of_def)

lemma first_of_nonempty:
  "first_of (mapping_http_strings j) = Some u \<Longrightarrow> u \<noteq> []"
  using mapping_http_strings_nonempty(1)[of u j] by (auto simp: first_of_def split: list.splits)

lemma find_first_url_first:
  "find_first_url j = first_of (mapping_http_strings j)"
  "find_in_items kvs = first_of (mapping_http_strings_items kvs)"
  "find_in_list xs = first_of (mapping_http_strings_list xs)"
proof (induction j and kvs and xs rule: find_first_url_find_in_items_find_in_list.induct)
  case (8 k v rest)
  show ?case
  proof (cases v)
    case (JStr s)
    with 8 show ?thesis by (simp add: first_of_append) (simp add: first_of_def)
  next
    case JNull with 8 show ?thesis by (simp add: first_of_append first_of_def)
  next
    case (JBool b) with 8 show ?thesis by (simp add: first_of_append first_of_def)
  next
    case (JNum n) with 8 show ?thesis by (simp add: first_of_append first_of_def)
  next
    case (JArr ys)
    with 8 first_of_nonempty[of v] show ?thesis
      by (auto simp add: first_of_append split: option.splits)
  next
    case (JObj d)
    with 8 first_of_nonempty[of v] show ?thesis
      by (auto simp add: first_of_append split: option.splits)
  qed
next
  case (10 el rest)
  with first_of_nonempty[of el] show ?case
    by (auto simp add: first_of_append split: option.splits)
qed (simp_all add: first_of_def)

text \<open>
  C2. The recursive search is meant to find any string beginning with \<^verbatim>\<open>http\<close> in the
  result, also one that is a direct element of a sequence. \<^verbatim>\<open>find_first_url\<close> tests
  for such a string among the values of a mapping only; on the result
  \<^verbatim>\<open>{"images": ["http://x/img.png"]}\<close> it returns \<^verbatim>\<open>None\<close> and nothing is fetched.
\<close>

theorem find_first_url_skips_list_elements:
  "http_strings (JObj [(''images'', JArr [JStr ''http://x/img.png''])]) = [''http://x/img.png''] \<and>
   find_first_url (JObj [(''images'', JArr [JStr ''http://x/img.png''])]) = None \<and>
   extract_image_bytes_from_result env (JObj [(''images'', JArr [JStr ''http://x/img.png''])]) = Inr None"
  by code_simp


section \<open>Properties of the handlers\<close>

text \<open>
  C3 (as amended). The job identifier is the first truthy value among the keys
  \<^verbatim>\<open>request_id\<close>, \<^verbatim>\<open>id\<close>, \<^verbatim>\<open>requestId\<close> of the submit response, in that order, and the
  poller is called with it. When none of the three holds a truthy value (in particular
  when none is present) the handler answers 500 "Unexpected async-invoke response"
  carrying the raw response.
\<close>

theorem request_id_first_truthy:
  assumes "input_payload prompt options = Inr payload"
      and "post_invoke env (JObj [(''model_id'', model_id), (''input'', payload)]) = Inr (JObj kvs)"
  shows "inference_steps fuel env prompt model_id options w =
     (let rid = (if truthy (dict_get kvs ''request_id'') then dict_get kvs ''request_id''
                 else if truthy (dict_get kvs ''id'') then dict_get kvs ''id''
                 else dict_get kvs ''requestId'')
      in if truthy rid then
           map_option (\<lambda>(polled, w'). (after_poll env polled, w'))
             (poll_until_complete fuel env rid (poll_timeout env) (poll_interval env) w)
         else
           Some (Return (Jsonify 500 [(''error'', Text ''Unexpected async-invoke response''),
                                      (''response'', Payload (JObj kvs))]), w))"
  using assms
  by (simp add: inference_steps_def start_async_inference_def request_id_of_def py_or_def Let_def)


text \<open>A submit response without any identifier, and the response
  \<^verbatim>\<open>{"id": "x", "requestId": "y"}\<close>, whose job is polled under \<^verbatim>\<open>x\<close>.\<close>

theorem request_id_first_truthy_witness:
  "inference_steps 1 (submit_env (JObj [(''status'', JStr ''queued''), (''id'', JNull)]))
     (JStr ''a cat'') (JStr ''m'') (JObj []) w0 =
     Some (Return (Jsonify 500 [(''error'', Text ''Unexpected async-invoke response''),
             (''response'', Payload (JObj [(''status'', JStr ''queued''), (''id'', JNull)]))]), w0) \<and>
   map_option (trace \<circ> snd)
     (inference_steps 1 (submit_env (JObj [(''id'', JStr ''x''), (''requestId'', JStr ''y'')]))
        (JStr ''a cat'') (JStr ''m'') (JObj []) w0) =
     Some [ReadStart, GetStatus (JStr ''x''), GetResult (JStr ''x'')]"
proof -
  let ?kvs = "[(''status'', JStr ''queued''), (''id'', JNull)]"
  let ?ids = "[(''id'', JStr ''x''), (''requestId'', JStr ''y'')]"
  let ?body = "JObj [(''model_id'', JStr ''m''), (''input'', JObj [(''prompt'', JStr ''a cat'')])]"
  have h1: "input_payload (JStr ''a cat'') (JObj []) = Inr (JObj [(''prompt'', JStr ''a cat'')])"
    by (simp add: input_payload_def)
  have h2: "post_invoke (submit_env (JObj ?kvs)) ?body = Inr (JObj ?kvs)"
    by (simp add: submit_env_def)
  have h3: "post_invoke (submit_env (JObj ?ids)) ?body = Inr (JObj ?ids)"
    by (simp add: submit_env_def)
  have a: "inference_steps 1 (submit_env (JObj ?kvs)) (JStr ''a cat'') (JStr ''m'') (JObj []) w0 =
     Some (Return (Jsonify 500 [(''error'', Text ''Unexpected async-invoke response''),
             (''response'', Payload (JObj ?kvs))]), w0)"
    using request_id_first_truthy[OF h1 h2, of 1 w0] by (simp add: dict_get_def)
  have p: "map_option (trace \<circ> snd)
      (map_option (\<lambda>(polled, w'). (after_poll (submit_env (JObj ?ids)) polled, w'))
        (poll_until_complete 1 (submit_env (JObj ?ids)) (JStr ''x'')
           (poll_timeout (submit_env (JObj ?ids))) (poll_interval (submit_env (JObj ?ids))) w0)) =
      Some [ReadStart, GetStatus (JStr ''x''), GetResult (JStr ''x'')]"
    by code_simp
  have eq: "inference_steps 1 (submit_env (JObj ?ids)) (JStr ''a cat'') (JStr ''m'') (JObj []) w0 =
      map_option (\<lambda>(polled, w'). (after_poll (submit_env (JObj ?ids)) polled, w'))
        (poll_until_complete 1 (submit_env (JObj ?ids)) (JStr ''x'')
           (poll_timeout (submit_env (JObj ?ids))) (poll_interval (submit_env (JObj ?ids))) w0)"
    using request_id_first_truthy[OF h1 h3, of 1 w0] by (simp add: dict_get_def Let_def)
  have b: "map_option (trace \<circ> snd)
     (inference_steps 1 (submit_env (JObj ?ids)) (JStr ''a cat'') (JStr ''m'') (JObj []) w0) =
     Some [ReadStart, GetStatus (JStr ''x''), GetResult (JStr ''x'')]"
    unfolding eq by (rule p)
  from a b show ?thesis by simp
qed

text \<open>The key \<^verbatim>\<open>request_id\<close> is present with an empty value: the job is polled under the
  value of \<^verbatim>\<open>id\<close>.\<close>

theorem request_id_present_but_empty_counterexample:
  "map_of [(''request_id'', JStr ''''), (''id'', JStr ''x'')] ''request_id'' = Some (JStr '''') \<and>
   request_id_of (JObj [(''request_id'', JStr ''''), (''id'', JStr ''x'')]) = Inr (JStr ''x'') \<and>
   map_option (trace \<circ> snd)
     (generate_image 1 (submit_env (JObj [(''request_id'', JStr ''''), (''id'', JStr ''x'')]))
        (JObj [(''prompt'', JStr ''a cat'')]) w0) =
     Some [ReadStart, GetStatus (JStr ''x''), GetResult (JStr ''x'')]"
  by code_simp









lemma failure_of_Raise:
  "failure_of (Raise e) = Some f \<Longrightarrow>
     f = (case e of TimeoutError t \<Rightarrow> PollTimeoutError | RuntimeError j \<Rightarrow> JobFailedError
          | _ \<Rightarrow> TransportError)"
  by (auto simp: failure_of_def split: exn.splits)








text \<open>Nothing between the inner components and the \<^verbatim>\<open>except\<close> clauses catches an
  exception: what the submit request, the poller or the extractor raises is what the
  handler's clause receives.\<close>

lemma inner_errors_reach_handler:
  "after_poll env (Inl e) = Raise e"
  "extract_image_bytes_from_result env final_result = Inl e \<Longrightarrow>
     after_poll env (Inr final_result) = Raise e"
  "input_payload prompt options = Inr payload \<Longrightarrow>
     post_invoke env (JObj [(''model_id'', model_id), (''input'', payload)]) = Inl t \<Longrightarrow>
     inference_steps fuel env prompt model_id options w = Some (Raise (Requests t), w)"
  "generate_respond (Raise e) = generate_except e"
  "upload_respond env prompt (Raise e) = upload_except e"
  by (simp_all add: after_poll_def inference_steps_def start_async_inference_def
        generate_respond_def upload_respond_def)



text \<open>The catch-all clause: in \<^verbatim>\<open>generate_image\<close> a transport failure that is no HTTP
  error status has the status code and \<^verbatim>\<open>error\<close> text of a failed job, and in
  \<^verbatim>\<open>upload_image_to_spaces\<close>, which has no clause for \<^verbatim>\<open>requests.HTTPError\<close>, every
  transport failure has; the answers differ in \<^verbatim>\<open>details\<close>.\<close>

lemma catch_all_kinds:
  "response_kind (generate_respond (Raise (Requests (RequestFailed m)))) =
     response_kind (generate_respond (Raise (RuntimeError j)))"
  "response_kind (upload_respond env prompt (Raise (Requests t))) =
     response_kind (upload_respond env' prompt' (Raise (RuntimeError j)))"
  by (simp_all add: generate_respond_def generate_except_def upload_respond_def upload_except_def
        response_kind_def)

lemma upload_http_error_as_job_failure:
  "run_kind (generate_image 1 (broken_status_env (HTTPError ''503 Server Error''))
      (JObj [(''prompt'', JStr ''a cat'')]) w0) = Some (502, ''HTTP error during inference'') \<and>
   run_kind (upload_image_to_spaces 1 (broken_status_env (HTTPError ''503 Server Error''))
      (JObj [(''prompt'', JStr ''a cat'')]) w0) = Some (500, ''Failed to generate or upload image'') \<and>
   run_kind (upload_image_to_spaces 1 (fixed_env (JObj [(''status'', JStr ''FAILED'')]) 0 JNull)
      (JObj [(''prompt'', JStr ''a cat'')]) w0) = Some (500, ''Failed to generate or upload image'')"
  by code_simp

end
